theory Spec2Isabelle
  imports Main "HOL-Library.Word"
begin

section \<open>The system-service monitor (server/monitor-types/system-service.js)\<close>

subsection \<open>JavaScript strings\<close>

text \<open>
  A JavaScript string is a sequence of UTF-16 code units, and \<open>length\<close>, \<open>substring\<close>
  and the regular expressions of the source all count code units. A string is therefore
  a list of 16-bit words; \<open>js\<close> embeds an ASCII literal.
\<close>

type_synonym jschar = "16 word"
type_synonym jsstring = "jschar list"

definition js :: "string \<Rightarrow> jsstring" where
  "js s = map of_char s"

definition SQ :: jschar where
  "SQ = 0x27"

definition DQ :: jschar where
  "DQ = 0x22"

text \<open>\<open>a || b\<close> on strings: the empty string is the only falsy string.\<close>

definition or_else :: "jsstring \<Rightarrow> jsstring \<Rightarrow> jsstring" where
  "or_else a b = (if a \<noteq> [] then a else b)"

text \<open>\<open>Array.prototype.join(sep)\<close>.\<close>

fun join :: "jsstring \<Rightarrow> jsstring list \<Rightarrow> jsstring" where
  "join sep [] = []"
| "join sep [x] = x"
| "join sep (x # y # ys) = x @ sep @ join sep (y # ys)"

text \<open>
  \<open>String.prototype.trim\<close> removes the code units that are WhiteSpace or
  LineTerminator in ECMAScript from both ends.
\<close>

definition is_space :: "jschar \<Rightarrow> bool" where
  "is_space c \<longleftrightarrow>
     (0x09 \<le> c \<and> c \<le> 0x0D) \<or> c = 0x20 \<or> c = 0xA0 \<or> c = 0x1680 \<or>
     (0x2000 \<le> c \<and> c \<le> 0x200A) \<or> c = 0x2028 \<or> c = 0x2029 \<or> c = 0x202F \<or>
     c = 0x205F \<or> c = 0x3000 \<or> c = 0xFEFF"

definition trim :: "jsstring \<Rightarrow> jsstring" where
  "trim s = rev (dropWhile is_space (rev (dropWhile is_space s)))"

subsection \<open>trimOutput\<close>

definition SSH_OUTPUT_MAX_CHARS :: nat where
  "SSH_OUTPUT_MAX_CHARS = 200"

text \<open>
  \<open>trimOutput(output)\<close>: \<open>(output || "").toString().trim()\<close>, cut to the first
  200 code units with \<open>...\<close> appended when longer.
\<close>

definition trimOutput :: "jsstring \<Rightarrow> jsstring" where
  "trimOutput output =
     (let text = trim (or_else output [])
      in if length text > SSH_OUTPUT_MAX_CHARS
         then take SSH_OUTPUT_MAX_CHARS text @ js ''...''
         else text)"

subsection \<open>escapeSshArg\<close>

text \<open>
  \<open>String(arg).replace(/'/g, `'\"'\"'`)\<close>: every single quote becomes the five code
  units \<open>'"'"'\<close> (the replacement holds no \<open>$\<close> pattern).
\<close>

definition quote_replacement :: jsstring where
  "quote_replacement = [SQ, DQ, SQ, DQ, SQ]"

fun replace_quotes :: "jsstring \<Rightarrow> jsstring" where
  "replace_quotes [] = []"
| "replace_quotes (c # cs) =
     (if c = SQ then quote_replacement @ replace_quotes cs else c # replace_quotes cs)"

definition escapeSshArg :: "jsstring \<Rightarrow> jsstring" where
  "escapeSshArg arg =
     (if arg = [] then [SQ, SQ] else [SQ] @ replace_quotes arg @ [SQ])"

subsection \<open>A POSIX shell tokenizer\<close>

text \<open>
  Modelled from the spec: the POSIX-shell-compatible tokenizer that the escaper is
  measured against is the remote shell, which is not part of the repository. The model
  follows token recognition and quoting in the POSIX Shell Command Language (sections
  2.2 and 2.3) and reads a command line into its tokens, each word with its literal
  value:
  \<^item> an unquoted space or tab ends a word; an unquoted newline ends a word and is a token
    of its own;
  \<^item> the unquoted characters \<open>| & ; < > ( )\<close> end a word and start an operator, the
    longest of \<open>&& || ;; << >> <& >& <> >| <<-\<close> or the single character;
  \<^item> an unquoted \<open>#\<close> where a word would start begins a comment, dropped up to the
    next newline;
  \<^item> between single quotes every character is literal; between double quotes a
    backslash escapes only \<open>$\<close>, \<open>`\<close>, \<open>"\<close>, \<open>\\<close> and newline; outside quotes a
    backslash makes the next character literal and a backslash-newline pair is removed;
  \<^item> a word that the shell would expand has no literal value, and reading it fails with
    \<open>Expansion\<close>: a \<open>$\<close> or a backquote outside single quotes (parameter expansion,
    command and arithmetic substitution), an unquoted \<open>*\<close>, \<open>?\<close> or \<open>[\<close> (pathname
    expansion), an unquoted \<open>~\<close> at the start of a word (tilde expansion);
  \<^item> a quote or a backslash left open fails with \<open>Unterminated\<close>.
  Reserved words, aliases and assignments belong to the grammar above the tokens and are
  not told apart here.
\<close>

datatype token = Word jsstring | Operator jsstring

datatype sh_error = Unterminated | Expansion

datatype quoting = Unquoted | InSingle | InDouble | InComment

definition NL :: jschar where
  "NL = 0x0A"

definition BSL :: jschar where
  "BSL = 0x5C"

definition is_blank :: "jschar \<Rightarrow> bool" where
  "is_blank c \<longleftrightarrow> c = 0x20 \<or> c = 0x09"

definition is_operator_char :: "jschar \<Rightarrow> bool" where
  \<comment> \<open>\<open>| & ; < > ( )\<close>\<close>
  "is_operator_char c \<longleftrightarrow>
     c = 0x7C \<or> c = 0x26 \<or> c = 0x3B \<or> c = 0x3C \<or> c = 0x3E \<or> c = 0x28 \<or> c = 0x29"

definition operator2 :: "jschar \<Rightarrow> jschar \<Rightarrow> bool" where
  \<comment> \<open>the operators of two characters: \<open>&& || ;; << >> <& >& <> >|\<close>\<close>
  "operator2 c d \<longleftrightarrow>
     (c = 0x26 \<and> d = 0x26) \<or> (c = 0x7C \<and> d = 0x7C) \<or> (c = 0x3B \<and> d = 0x3B) \<or>
     (c = 0x3C \<and> (d = 0x3C \<or> d = 0x26 \<or> d = 0x3E)) \<or>
     (c = 0x3E \<and> (d = 0x3E \<or> d = 0x26 \<or> d = 0x7C))"

definition operator3 :: "jschar \<Rightarrow> jschar \<Rightarrow> jschar \<Rightarrow> bool" where
  \<comment> \<open>\<open><<-\<close>\<close>
  "operator3 c d e \<longleftrightarrow> c = 0x3C \<and> d = 0x3C \<and> e = 0x2D"

definition substitutes :: "jschar \<Rightarrow> bool" where
  \<comment> \<open>\<open>$\<close> and the backquote\<close>
  "substitutes c \<longleftrightarrow> c = 0x24 \<or> c = 0x60"

definition is_pattern_char :: "jschar \<Rightarrow> bool" where
  \<comment> \<open>\<open>* ? [\<close>\<close>
  "is_pattern_char c \<longleftrightarrow> c = 0x2A \<or> c = 0x3F \<or> c = 0x5B"

definition dq_escapable :: "jschar \<Rightarrow> bool" where
  "dq_escapable c \<longleftrightarrow> c = 0x24 \<or> c = 0x60 \<or> c = DQ \<or> c = BSL \<or> c = NL"

text \<open>The word in progress, if any: closed as a token, or grown by some characters.\<close>

definition closed :: "jsstring option \<Rightarrow> token list" where
  "closed w = (case w of None \<Rightarrow> [] | Some t \<Rightarrow> [Word t])"

definition grown :: "jsstring option \<Rightarrow> jsstring \<Rightarrow> jsstring option" where
  "grown w cs = Some ((case w of None \<Rightarrow> [] | Some t \<Rightarrow> t) @ cs)"

definition followed_by :: "token list \<Rightarrow> sh_error + token list \<Rightarrow> sh_error + token list" where
  "followed_by ts r = (case r of Inl e \<Rightarrow> Inl e | Inr us \<Rightarrow> Inr (ts @ us))"

text \<open>
  \<open>sh_scan q w cs\<close> reads \<open>cs\<close> in quoting state \<open>q\<close>; \<open>w\<close> is the word in
  progress, if any.
\<close>

fun sh_scan :: "quoting \<Rightarrow> jsstring option \<Rightarrow> jsstring \<Rightarrow> sh_error + token list" where
  "sh_scan Unquoted w [] = Inr (closed w)"
| "sh_scan InComment w [] = Inr (closed w)"
| "sh_scan InSingle w [] = Inl Unterminated"
| "sh_scan InDouble w [] = Inl Unterminated"
| "sh_scan InComment w (c # cs) =
     (if c = NL then followed_by (closed w @ [Operator [c]]) (sh_scan Unquoted None cs)
      else sh_scan InComment w cs)"
| "sh_scan Unquoted w (c # cs) =
     (if is_blank c then followed_by (closed w) (sh_scan Unquoted None cs)
      else if c = NL then followed_by (closed w @ [Operator [c]]) (sh_scan Unquoted None cs)
      else if is_operator_char c then
        (case cs of
           [] \<Rightarrow> Inr (closed w @ [Operator [c]])
         | d # ds \<Rightarrow>
             if operator2 c d then
               (case ds of
                  [] \<Rightarrow> Inr (closed w @ [Operator [c, d]])
                | e # es \<Rightarrow>
                    if operator3 c d e
                    then followed_by (closed w @ [Operator [c, d, e]]) (sh_scan Unquoted None es)
                    else followed_by (closed w @ [Operator [c, d]]) (sh_scan Unquoted None ds))
             else followed_by (closed w @ [Operator [c]]) (sh_scan Unquoted None cs))
      else if c = 0x23 \<and> w = None then sh_scan InComment None cs
      else if substitutes c \<or> is_pattern_char c \<or> (c = 0x7E \<and> w = None) then Inl Expansion
      else if c = SQ then sh_scan InSingle (grown w []) cs
      else if c = DQ then sh_scan InDouble (grown w []) cs
      else if c = BSL then
        (case cs of
           [] \<Rightarrow> Inl Unterminated
         | d # ds \<Rightarrow>
             if d = NL then sh_scan Unquoted w ds
             else sh_scan Unquoted (grown w [d]) ds)
      else sh_scan Unquoted (grown w [c]) cs)"
| "sh_scan InSingle w (c # cs) =
     (if c = SQ then sh_scan Unquoted w cs
      else sh_scan InSingle (grown w [c]) cs)"
| "sh_scan InDouble w (c # cs) =
     (if c = DQ then sh_scan Unquoted w cs
      else if substitutes c then Inl Expansion
      else if c = BSL then
        (case cs of
           [] \<Rightarrow> Inl Unterminated
         | d # ds \<Rightarrow>
             if d = NL then sh_scan InDouble w ds
             else if dq_escapable d then sh_scan InDouble (grown w [d]) ds
             else sh_scan InDouble (grown w [c, d]) ds)
      else sh_scan InDouble (grown w [c]) cs)"

definition sh_tokens :: "jsstring \<Rightarrow> sh_error + token list" where
  "sh_tokens s = sh_scan Unquoted None s"

subsection \<open>Errors, subprocesses and the heartbeat\<close>

text \<open>
  Every failure of the source is a thrown object: \<open>new Error(message)\<close>, or the
  \<open>URIError\<close> that \<open>decodeURIComponent\<close> throws. The kinds of error the
  specification names are told apart by the message alone, as in the source.
\<close>

datatype exn = Error jsstring | URIError jsstring

fun message :: "exn \<Rightarrow> jsstring" where
  "message (Error m) = m"
| "message (URIError m) = m"

text \<open>
  \<open>execFile(program, args, {timeout}, callback)\<close> runs a subprocess and calls back with
  \<open>(error, stdout, stderr)\<close>; \<open>error\<close> is null or an error object, of which only
  the message is read. The subprocess is a parameter of the model: any function from
  invocations to results. Each function below returns, beside its outcome, the list of
  invocations it made.
\<close>

record invocation =
  program :: jsstring
  args :: "jsstring list"
  timeout :: nat

record exec_result =
  error :: "jsstring option"
  stdout :: jsstring
  stderr :: jsstring

type_synonym executor = "invocation \<Rightarrow> exec_result"

text \<open>The status constants of \<open>src/util\<close>; the monitor assigns only \<open>UP\<close>.\<close>

datatype status = DOWN | UP | PENDING | MAINTENANCE | RESTARTING

text \<open>
  The heartbeat object belongs to the caller; the fields the monitor never names are the
  extension of the record.
\<close>

record heartbeat =
  status :: status
  msg :: jsstring

record 'h run =
  outcome :: "exn + unit"
  beat :: 'h
  spawned :: "invocation list"

definition service_is :: "jsstring \<Rightarrow> jsstring \<Rightarrow> jsstring" where
  \<comment> \<open>the template \<open>`Service '${serviceName}' is ${what}.`\<close>\<close>
  "service_is serviceName what =
     js ''Service '' @ [SQ] @ serviceName @ [SQ] @ js '' is '' @ what @ js ''.''"

subsection \<open>Service names\<close>

definition is_alnum :: "jschar \<Rightarrow> bool" where
  "is_alnum c \<longleftrightarrow>
     (0x61 \<le> c \<and> c \<le> 0x7A) \<or> (0x41 \<le> c \<and> c \<le> 0x5A) \<or> (0x30 \<le> c \<and> c \<le> 0x39)"

text \<open>\<open>/^[a-zA-Z0-9._\-@]+$/.test(s)\<close>; without the \<open>m\<close> flag \<open>$\<close> is the end of the input.\<close>

definition linux_name_re :: "jsstring \<Rightarrow> bool" where
  "linux_name_re s \<longleftrightarrow>
     s \<noteq> [] \<and> list_all (\<lambda>c. is_alnum c \<or> c = 0x2E \<or> c = 0x5F \<or> c = 0x2D \<or> c = 0x40) s"

text \<open>\<open>/^[A-Za-z0-9._-]+$/.test(s)\<close>.\<close>

definition windows_name_re :: "jsstring \<Rightarrow> bool" where
  "windows_name_re s \<longleftrightarrow>
     s \<noteq> [] \<and> list_all (\<lambda>c. is_alnum c \<or> c = 0x2E \<or> c = 0x5F \<or> c = 0x2D) s"

definition linux_invalid_name :: jsstring where
  "linux_invalid_name =
     js ''Invalid service name. Please use the internal Service Name (no spaces).''"

definition windows_invalid_name :: jsstring where
  "windows_invalid_name =
     js ''Invalid service name. Only alphanumeric characters and '.', '_', '-' are allowed.''"

subsection \<open>decodeURIComponent\<close>

text \<open>
  The built-in \<open>decodeURIComponent\<close>, after the Decode operation of ECMAScript with an
  empty set of preserved escapes: \<open>%XX\<close> becomes the code unit \<open>XX\<close> when below
  \<open>0x80\<close>; otherwise it starts a UTF-8 sequence of two to four escaped octets, which
  must encode a code point and becomes its UTF-16 code units. \<open>None\<close> is the
  \<open>URIError\<close> thrown for anything else after a \<open>%\<close>.
\<close>

definition hex_digit :: "jschar \<Rightarrow> nat option" where
  "hex_digit c =
     (if 0x30 \<le> c \<and> c \<le> 0x39 then Some (unat c - 0x30)
      else if 0x41 \<le> c \<and> c \<le> 0x46 then Some (unat c - 0x41 + 10)
      else if 0x61 \<le> c \<and> c \<le> 0x66 then Some (unat c - 0x61 + 10)
      else None)"

fun percent_octet :: "jsstring \<Rightarrow> (nat \<times> jsstring) option" where
  "percent_octet (p # a # b # rest) =
     (if p = 0x25 then
        (case hex_digit a of
           None \<Rightarrow> None
         | Some h \<Rightarrow> (case hex_digit b of None \<Rightarrow> None | Some l \<Rightarrow> Some (16 * h + l, rest)))
      else None)"
| "percent_octet _ = None"

fun continuation :: "nat \<Rightarrow> jsstring \<Rightarrow> (nat list \<times> jsstring) option" where
  "continuation 0 s = Some ([], s)"
| "continuation (Suc n) s =
     (case percent_octet s of
        None \<Rightarrow> None
      | Some (b, rest) \<Rightarrow>
          (case continuation n rest of
             None \<Rightarrow> None
           | Some (bs, rest') \<Rightarrow> Some (b # bs, rest')))"

definition leading_ones :: "nat \<Rightarrow> nat" where
  \<comment> \<open>the number of leading 1 bits of an octet\<close>
  "leading_ones B =
     (if B < 0x80 then 0 else if B < 0xC0 then 1 else if B < 0xE0 then 2
      else if B < 0xF0 then 3 else if B < 0xF8 then 4 else 5)"

definition tail_octet :: "nat \<Rightarrow> bool" where
  "tail_octet b \<longleftrightarrow> 0x80 \<le> b \<and> b \<le> 0xBF"

text \<open>The well-formed UTF-8 sequences of more than one octet, and their code points.\<close>

fun utf8_code_point :: "nat list \<Rightarrow> nat option" where
  "utf8_code_point [a, b] =
     (if 0xC2 \<le> a \<and> a \<le> 0xDF \<and> tail_octet b
      then Some ((a - 0xC0) * 0x40 + (b - 0x80)) else None)"
| "utf8_code_point [a, b, c] =
     (if ((a = 0xE0 \<and> 0xA0 \<le> b \<and> b \<le> 0xBF) \<or>
          (0xE1 \<le> a \<and> a \<le> 0xEC \<and> tail_octet b) \<or>
          (a = 0xED \<and> 0x80 \<le> b \<and> b \<le> 0x9F) \<or>
          (0xEE \<le> a \<and> a \<le> 0xEF \<and> tail_octet b)) \<and> tail_octet c
      then Some ((a - 0xE0) * 0x1000 + (b - 0x80) * 0x40 + (c - 0x80)) else None)"
| "utf8_code_point [a, b, c, d] =
     (if ((a = 0xF0 \<and> 0x90 \<le> b \<and> b \<le> 0xBF) \<or>
          (0xF1 \<le> a \<and> a \<le> 0xF3 \<and> tail_octet b) \<or>
          (a = 0xF4 \<and> 0x80 \<le> b \<and> b \<le> 0x8F)) \<and> tail_octet c \<and> tail_octet d
      then Some ((a - 0xF0) * 0x40000 + (b - 0x80) * 0x1000 + (c - 0x80) * 0x40 + (d - 0x80))
      else None)"
| "utf8_code_point _ = None"

definition utf16 :: "nat \<Rightarrow> jsstring" where
  "utf16 cp =
     (if cp < 0x10000 then [of_nat cp]
      else [of_nat (0xD800 + (cp - 0x10000) div 0x400),
            of_nat (0xDC00 + (cp - 0x10000) mod 0x400)])"

lemma percent_octet_shorter:
  "percent_octet s = Some (b, rest) \<Longrightarrow> length rest < length s"
  by (induction s rule: percent_octet.induct) (auto split: if_splits option.splits)

lemma continuation_not_longer:
  "continuation n s = Some (bs, rest) \<Longrightarrow> length rest \<le> length s"
proof (induction n arbitrary: s bs rest)
  case 0
  then show ?case by simp
next
  case (Suc n)
  then show ?case
    by (fastforce split: option.splits dest: percent_octet_shorter)
qed

function decodeURIComponent :: "jsstring \<Rightarrow> jsstring option" where
  "decodeURIComponent [] = Some []"
| "decodeURIComponent (c # cs) =
     (if c \<noteq> 0x25 then map_option (Cons c) (decodeURIComponent cs)
      else
        (case percent_octet (c # cs) of
           None \<Rightarrow> None
         | Some (B, rest) \<Rightarrow>
             if leading_ones B = 0
             then map_option (Cons (of_nat B)) (decodeURIComponent rest)
             else if leading_ones B = 1 \<or> leading_ones B > 4 then None
             else
               (case continuation (leading_ones B - 1) rest of
                  None \<Rightarrow> None
                | Some (octets, rest') \<Rightarrow>
                    (case utf8_code_point (B # octets) of
                       None \<Rightarrow> None
                     | Some V \<Rightarrow> map_option (append (utf16 V)) (decodeURIComponent rest')))))"
  by pat_completeness auto
termination
proof (relation "measure length", goal_cases)
  case 1
  show ?case by simp
next
  case (2 c cs)
  show ?case by simp
next
  case (3 c cs x2 B rest)
  then show ?case using percent_octet_shorter [of "c # cs" B rest] by simp
next
  case (4 c cs x2 B rest x2a octets rest' V)
  then show ?case
    using percent_octet_shorter [of "c # cs" B rest]
      continuation_not_longer [of "leading_ones B - 1" rest octets rest'] by simp
qed

subsection \<open>parseSshUrl\<close>

text \<open>
  \<open>new URL(s)\<close> is a built-in of the runtime, not code of the repository: the model takes
  the constructor as a parameter \<open>U\<close>, \<open>None\<close> when it throws. Of the object it returns
  the source reads four properties, all strings, empty when the part is absent.
\<close>

record url =
  url_protocol :: jsstring
  url_username :: jsstring
  url_hostname :: jsstring
  url_port :: jsstring

type_synonym url_constructor = "jsstring \<Rightarrow> url option"

record parsed_target =
  userHost :: jsstring
  port :: "jsstring option"

text \<open>
  The argument is a string here, so the \<open>typeof sshUrl !== "string"\<close> guard never
  fires. \<open>url.port || null\<close> is \<open>None\<close> for the empty port.
\<close>

definition parseSshUrl :: "url_constructor \<Rightarrow> jsstring \<Rightarrow> exn + parsed_target" where
  "parseSshUrl U sshUrl =
     (case U sshUrl of
        None \<Rightarrow> Inl (Error (js ''Invalid SSH URL.''))
      | Some u \<Rightarrow>
          if url_protocol u \<noteq> js ''ssh:'' then Inl (Error (js ''SSH URL must start with ssh://''))
          else if url_hostname u = [] then Inl (Error (js ''SSH URL requires a hostname.''))
          else if url_username u \<noteq> [] then
            (case decodeURIComponent (url_username u) of
               None \<Rightarrow> Inl (URIError (js ''URI malformed''))
             | Some name \<Rightarrow>
                 Inr \<lparr>userHost = name @ js ''@'' @ url_hostname u,
                      port = (if url_port u \<noteq> [] then Some (url_port u) else None)\<rparr>)
          else
            Inr \<lparr>userHost = url_hostname u,
                 port = (if url_port u \<noteq> [] then Some (url_port u) else None)\<rparr>)"

subsection \<open>execSshCommand\<close>

text \<open>The argument list built for the \<open>ssh\<close> client; \<open>if (parsed.port)\<close> is a truthiness test.\<close>

definition sshArgs :: "parsed_target \<Rightarrow> jsstring list \<Rightarrow> jsstring list" where
  "sshArgs parsed remoteArgs =
     [js ''-o'', js ''BatchMode=yes'', js ''-o'', js ''ConnectTimeout=5''] @
     (case port parsed of
        None \<Rightarrow> []
      | Some p \<Rightarrow> if p \<noteq> [] then [js ''-p'', p] else []) @
     [userHost parsed, join (js '' '') (map escapeSshArg remoteArgs)]"

definition execSshCommand ::
  "url_constructor \<Rightarrow> executor \<Rightarrow> jsstring \<Rightarrow> jsstring list \<Rightarrow> nat \<Rightarrow>
   (exn + jsstring) \<times> invocation list" where
  "execSshCommand U ex sshUrl remoteArgs timeoutMs =
     (case parseSshUrl U sshUrl of
        Inl e \<Rightarrow> (Inl e, [])
      | Inr parsed \<Rightarrow>
          let call = \<lparr>program = js ''ssh'', args = sshArgs parsed remoteArgs, timeout = timeoutMs\<rparr>;
              r = ex call
          in (case error r of
                Some error_message \<Rightarrow>
                  let output = trimOutput (or_else (stderr r) (or_else (stdout r) error_message))
                  in (Inl (Error (or_else output (js ''Failed to execute command over SSH''))),
                      [call])
              | None \<Rightarrow> (Inr (stdout r), [call])))"

subsection \<open>The four strategies\<close>

definition checkLinux :: "executor \<Rightarrow> jsstring \<Rightarrow> 'h heartbeat_scheme \<Rightarrow> 'h heartbeat_scheme run" where
  "checkLinux ex serviceName h =
     (if serviceName = [] \<or> \<not> linux_name_re serviceName then
        \<lparr>outcome = Inl (Error linux_invalid_name), beat = h, spawned = []\<rparr>
      else
        let call = \<lparr>program = js ''systemctl'', args = [js ''is-active'', serviceName],
                    timeout = 5000\<rparr>;
            r = ex call;
            output = trim (or_else (stderr r) (or_else (stdout r) []));
            output = (if length output > 200 then take 200 output @ js ''...'' else output)
        in if error r \<noteq> None then
             \<lparr>outcome = Inl (Error (or_else output (service_is serviceName (js ''not running'')))),
              beat = h, spawned = [call]\<rparr>
           else
             \<lparr>outcome = Inr (),
              beat = h\<lparr>status := UP, msg := service_is serviceName (js ''running'')\<rparr>,
              spawned = [call]\<rparr>)"

definition checkLinuxViaSSH ::
  "url_constructor \<Rightarrow> executor \<Rightarrow> jsstring \<Rightarrow> jsstring \<Rightarrow> 'h heartbeat_scheme \<Rightarrow>
   'h heartbeat_scheme run" where
  "checkLinuxViaSSH U ex serviceName sshUrl h =
     (if serviceName = [] \<or> \<not> linux_name_re serviceName then
        \<lparr>outcome = Inl (Error linux_invalid_name), beat = h, spawned = []\<rparr>
      else
        (case execSshCommand U ex sshUrl [js ''systemctl'', js ''is-active'', serviceName] 5000 of
           (Inl e, calls) \<Rightarrow>
             let message = trimOutput (or_else (message e) [])
             in \<lparr>outcome = Inl (Error (service_is serviceName
                                           (or_else message (js ''not running'')))),
                 beat = h, spawned = calls\<rparr>
         | (Inr output, calls) \<Rightarrow>
             let status = trimOutput output
             in if status \<noteq> js ''active'' then
                  \<lparr>outcome = Inl (Error (service_is serviceName
                                            (or_else status (js ''not running'')))),
                   beat = h, spawned = calls\<rparr>
                else
                  \<lparr>outcome = Inr (),
                   beat = h\<lparr>status := UP, msg := service_is serviceName (js ''running'')\<rparr>,
                   spawned = calls\<rparr>))"

text \<open>\<open>serviceName.replaceAll("'", "''")\<close>.\<close>

fun double_quotes :: "jsstring \<Rightarrow> jsstring" where
  "double_quotes [] = []"
| "double_quotes (c # cs) = (if c = SQ then SQ # SQ # double_quotes cs else c # double_quotes cs)"

definition get_service_command :: "jsstring \<Rightarrow> jsstring" where
  "get_service_command serviceName =
     js ''(Get-Service -Name '' @ [SQ] @ double_quotes serviceName @ [SQ] @ js '').Status''"

definition checkWindowsViaSSH ::
  "url_constructor \<Rightarrow> executor \<Rightarrow> jsstring \<Rightarrow> jsstring \<Rightarrow> 'h heartbeat_scheme \<Rightarrow>
   'h heartbeat_scheme run" where
  "checkWindowsViaSSH U ex serviceName sshUrl h =
     (if \<not> windows_name_re serviceName then
        \<lparr>outcome = Inl (Error windows_invalid_name), beat = h, spawned = []\<rparr>
      else
        let command = get_service_command serviceName
        in (case execSshCommand U ex sshUrl
                   [js ''powershell'', js ''-NoProfile'', js ''-NonInteractive'', js ''-Command'',
                    command] 5000 of
              (Inl e, calls) \<Rightarrow>
                \<lparr>outcome = Inl (Error (service_is serviceName (js ''not running/found''))),
                 beat = h, spawned = calls\<rparr>
            | (Inr output, calls) \<Rightarrow>
                let status = trimOutput output
                in if status = js ''Running'' then
                     \<lparr>outcome = Inr (),
                      beat = h\<lparr>status := UP, msg := service_is serviceName (js ''running'')\<rparr>,
                      spawned = calls\<rparr>
                   else
                     \<lparr>outcome = Inl (Error (service_is serviceName
                                               (or_else status (js ''not running'')))),
                      beat = h, spawned = calls\<rparr>))"

definition checkWindows :: "executor \<Rightarrow> jsstring \<Rightarrow> 'h heartbeat_scheme \<Rightarrow> 'h heartbeat_scheme run" where
  "checkWindows ex serviceName h =
     (if \<not> windows_name_re serviceName then
        \<lparr>outcome = Inl (Error windows_invalid_name), beat = h, spawned = []\<rparr>
      else
        let call = \<lparr>program = js ''powershell'',
                    args = [js ''-NoProfile'', js ''-NonInteractive'', js ''-Command'',
                            get_service_command serviceName],
                    timeout = 5000\<rparr>;
            r = ex call;
            output = trim (or_else (stderr r) (or_else (stdout r) []));
            output = (if length output > 200 then take 200 output @ js ''...'' else output)
        in if error r \<noteq> None \<or> stderr r \<noteq> [] then
             \<lparr>outcome = Inl (Error (service_is serviceName (js ''not running/found''))),
              beat = h, spawned = [call]\<rparr>
           else if output = js ''Running'' then
             \<lparr>outcome = Inr (),
              beat = h\<lparr>status := UP, msg := service_is serviceName (js ''running'')\<rparr>,
              spawned = [call]\<rparr>
           else
             \<lparr>outcome = Inl (Error (service_is serviceName output)),
              beat = h, spawned = [call]\<rparr>)"

subsection \<open>The dispatcher\<close>

text \<open>
  The monitor's fields are columns that hold a string or nothing. The source reads each
  of them only through \<open>!x\<close> or \<open>x || default\<close>, which treat null, undefined and the
  empty string alike, so an unset field is the empty string here. \<open>process.platform\<close>
  is a parameter.
\<close>

record monitor =
  system_service_name :: jsstring
  system_service_check_method :: jsstring
  system_service_ssh_url :: jsstring
  system_service_ssh_platform :: jsstring

definition checkViaSSH ::
  "url_constructor \<Rightarrow> executor \<Rightarrow> monitor \<Rightarrow> 'h heartbeat_scheme \<Rightarrow> 'h heartbeat_scheme run" where
  "checkViaSSH U ex monitor h =
     (let sshUrl = system_service_ssh_url monitor
      in if sshUrl = [] then
           \<lparr>outcome = Inl (Error (js ''SSH Target is required.'')), beat = h, spawned = []\<rparr>
         else
           let platform = or_else (system_service_ssh_platform monitor) (js ''linux'')
           in if platform = js ''win32'' then
                checkWindowsViaSSH U ex (system_service_name monitor) sshUrl h
              else if platform = js ''linux'' then
                checkLinuxViaSSH U ex (system_service_name monitor) sshUrl h
              else
                \<lparr>outcome = Inl (Error (js ''System Service SSH monitoring is not supported on ''
                                         @ platform)),
                 beat = h, spawned = []\<rparr>)"

definition check ::
  "url_constructor \<Rightarrow> executor \<Rightarrow> jsstring \<Rightarrow> monitor \<Rightarrow> 'h heartbeat_scheme \<Rightarrow>
   'h heartbeat_scheme run" where
  "check U ex process_platform monitor h =
     (if system_service_name monitor = [] then
        \<lparr>outcome = Inl (Error (js ''Service Name is required.'')), beat = h, spawned = []\<rparr>
      else
        let checkMethod = or_else (system_service_check_method monitor) (js ''local'')
        in if checkMethod = js ''ssh'' then checkViaSSH U ex monitor h
           else if process_platform = js ''win32'' then
             checkWindows ex (system_service_name monitor) h
           else if process_platform = js ''linux'' then
             checkLinux ex (system_service_name monitor) h
           else
             \<lparr>outcome = Inl (Error (js ''System Service monitoring is not supported on ''
                                      @ process_platform)),
              beat = h, spawned = []\<rparr>)"

subsection \<open>Port numbers\<close>

text \<open>
  The port of a parsed target is a string. To speak of its range, \<open>port_number_in lo hi p\<close>
  says that \<open>p\<close> is a decimal numeral whose value lies between \<open>lo\<close> and \<open>hi\<close>.
\<close>

definition is_digit :: "jschar \<Rightarrow> bool" where
  "is_digit c \<longleftrightarrow> 0x30 \<le> c \<and> c \<le> 0x39"

definition decimal_value :: "jsstring \<Rightarrow> nat" where
  "decimal_value s = foldl (\<lambda>n c. 10 * n + (unat c - 0x30)) 0 s"

definition port_number_in :: "nat \<Rightarrow> nat \<Rightarrow> jsstring \<Rightarrow> bool" where
  "port_number_in lo hi p \<longleftrightarrow>
     p \<noteq> [] \<and> list_all is_digit p \<and> lo \<le> decimal_value p \<and> decimal_value p \<le> hi"

subsection \<open>The URL constructor\<close>

text \<open>
  \<open>new_URL\<close> is the constructor \<open>new URL(input)\<close> with no base URL, after the basic URL
  parser of the URL Standard, as far as the four properties read by \<open>parseSshUrl\<close> go.
  The host parser of the standard (domains, IPv4 and IPv6 addresses, opaque hosts) with
  its serializer is the parameter \<open>H\<close>: \<open>H opaque buffer\<close> is the serialized host, or
  \<open>None\<close> when the host is refused. The path, the query and the fragment never make
  the parser fail and are not kept.
  \<^item> Leading and trailing C0 controls and spaces are removed, then every tab and newline.
  \<^item> The scheme is a letter followed by letters, digits, \<open>+\<close>, \<open>-\<close> and \<open>.\<close> up to a
    colon, in lower case; without one the parser fails, there being no base URL.
  \<^item> After a special scheme (\<open>ftp\<close>, \<open>http\<close>, \<open>https\<close>, \<open>ws\<close>, \<open>wss\<close>) any run of
    slashes and backslashes is skipped and the authority follows; after another scheme
    the authority follows \<open>//\<close>, and without \<open>//\<close> the URL has a path and no host.
  \<^item> The authority runs to the first \<open>/\<close>, \<open>?\<close> or \<open>#\<close> (or \<open>\\<close> after a special
    scheme). What precedes its last \<open>@\<close> is the credentials, the user name up to the
    first colon, percent-encoded; credentials before an empty rest fail.
  \<^item> The host runs to the first colon outside square brackets. An empty host before a
    colon fails, as does an empty host after a special scheme.
  \<^item> The port is the digits after that colon: anything but digits fails, a number above
    65535 fails, no digits and the default port of the scheme give no port, and the
    port is serialized as its shortest decimal numeral.
  \<^item> \<open>file\<close> has no port; its host is what follows two slashes, unless that is a
    Windows drive letter; \<open>localhost\<close> becomes the empty host.
\<close>

definition is_c0_or_space :: "jschar \<Rightarrow> bool" where
  "is_c0_or_space c \<longleftrightarrow> c \<le> 0x20"

definition is_tab_or_newline :: "jschar \<Rightarrow> bool" where
  "is_tab_or_newline c \<longleftrightarrow> c = 0x09 \<or> c = 0x0A \<or> c = 0x0D"

definition url_input :: "jsstring \<Rightarrow> jsstring" where
  "url_input s =
     filter (\<lambda>c. \<not> is_tab_or_newline c)
       (rev (dropWhile is_c0_or_space (rev (dropWhile is_c0_or_space s))))"

definition is_alpha :: "jschar \<Rightarrow> bool" where
  "is_alpha c \<longleftrightarrow> (0x41 \<le> c \<and> c \<le> 0x5A) \<or> (0x61 \<le> c \<and> c \<le> 0x7A)"

definition to_lower :: "jschar \<Rightarrow> jschar" where
  "to_lower c = (if 0x41 \<le> c \<and> c \<le> 0x5A then c + 0x20 else c)"

definition is_scheme_char :: "jschar \<Rightarrow> bool" where
  "is_scheme_char c \<longleftrightarrow> is_alpha c \<or> is_digit c \<or> c = 0x2B \<or> c = 0x2D \<or> c = 0x2E"

text \<open>The scheme and what follows its colon.\<close>

definition scheme_of :: "jsstring \<Rightarrow> (jsstring \<times> jsstring) option" where
  "scheme_of s =
     (case s of
        [] \<Rightarrow> None
      | c # cs \<Rightarrow>
          if \<not> is_alpha c then None
          else
            (case dropWhile is_scheme_char s of
               [] \<Rightarrow> None
             | d # rest \<Rightarrow>
                 if d = 0x3A then Some (map to_lower (takeWhile is_scheme_char s), rest)
                 else None))"

definition is_special :: "jsstring \<Rightarrow> bool" where
  "is_special scheme \<longleftrightarrow>
     scheme = js ''ftp'' \<or> scheme = js ''file'' \<or> scheme = js ''http'' \<or>
     scheme = js ''https'' \<or> scheme = js ''ws'' \<or> scheme = js ''wss''"

definition default_port :: "jsstring \<Rightarrow> nat option" where
  "default_port scheme =
     (if scheme = js ''ftp'' then Some 21
      else if scheme = js ''http'' \<or> scheme = js ''ws'' then Some 80
      else if scheme = js ''https'' \<or> scheme = js ''wss'' then Some 443
      else None)"

text \<open>
  Percent-encoding with the userinfo percent-encode set: the string is read as code
  points (a surrogate without its partner is U+FFFD), and a code point of the set
  becomes the \<open>%XX\<close> of each octet of its UTF-8 encoding.
\<close>

definition scalar_value :: "jschar \<Rightarrow> nat" where
  "scalar_value c = (if 0xD800 \<le> c \<and> c \<le> 0xDFFF then 0xFFFD else unat c)"

fun code_points :: "jsstring \<Rightarrow> nat list" where
  "code_points [] = []"
| "code_points [c] = [scalar_value c]"
| "code_points (c # d # cs) =
     (if 0xD800 \<le> c \<and> c \<le> 0xDBFF \<and> 0xDC00 \<le> d \<and> d \<le> 0xDFFF
      then (0x10000 + (unat c - 0xD800) * 0x400 + (unat d - 0xDC00)) # code_points cs
      else scalar_value c # code_points (d # cs))"

definition utf8_encode :: "nat \<Rightarrow> nat list" where
  "utf8_encode cp =
     (if cp < 0x80 then [cp]
      else if cp < 0x800 then [0xC0 + cp div 0x40, 0x80 + cp mod 0x40]
      else if cp < 0x10000 then
        [0xE0 + cp div 0x1000, 0x80 + (cp div 0x40) mod 0x40, 0x80 + cp mod 0x40]
      else
        [0xF0 + cp div 0x40000, 0x80 + (cp div 0x1000) mod 0x40,
         0x80 + (cp div 0x40) mod 0x40, 0x80 + cp mod 0x40])"

definition hex_upper :: "nat \<Rightarrow> jschar" where
  "hex_upper n = (if n < 10 then of_nat (0x30 + n) else of_nat (0x41 + (n - 10)))"

definition percent_byte :: "nat \<Rightarrow> jsstring" where
  "percent_byte b = [0x25, hex_upper (b div 16), hex_upper (b mod 16)]"

definition in_userinfo_set :: "nat \<Rightarrow> bool" where
  "in_userinfo_set cp \<longleftrightarrow>
     cp \<le> 0x1F \<or> cp > 0x7E \<or>
     cp \<in> set [0x20, 0x22, 0x23, 0x3C, 0x3E, 0x3F, 0x5E, 0x60, 0x7B, 0x7D,
                0x2F, 0x3A, 0x3B, 0x3D, 0x40, 0x5B, 0x5C, 0x5D, 0x7C]"

definition userinfo_encode :: "jsstring \<Rightarrow> jsstring" where
  "userinfo_encode s =
     concat (map (\<lambda>cp. if in_userinfo_set cp then concat (map percent_byte (utf8_encode cp))
                       else [of_nat cp])
               (code_points s))"

text \<open>The shortest decimal numeral of a number.\<close>

function decimal :: "nat \<Rightarrow> jsstring" where
  "decimal n =
     (if n < 10 then [of_nat (0x30 + n)]
      else decimal (n div 10) @ [of_nat (0x30 + n mod 10)])"
  by pat_completeness auto
termination
  by (relation "measure id") auto

declare decimal.simps [simp del]

text \<open>The port state: \<open>None\<close> is failure, the empty string no port.\<close>

definition port_state :: "nat option \<Rightarrow> jsstring \<Rightarrow> jsstring option" where
  "port_state dflt buffer =
     (if \<not> list_all is_digit buffer then None
      else if buffer = [] then Some []
      else if decimal_value buffer > 65535 then None
      else if dflt = Some (decimal_value buffer) then Some []
      else Some (decimal (decimal_value buffer)))"

text \<open>
  The host state: the host buffer, and the rest after the first colon outside square
  brackets if there is one.
\<close>

fun split_host :: "bool \<Rightarrow> jsstring \<Rightarrow> jsstring \<times> jsstring option" where
  "split_host inside [] = ([], None)"
| "split_host inside (c # cs) =
     (if c = 0x3A \<and> \<not> inside then ([], Some cs)
      else
        (case split_host (if c = 0x5B then True else if c = 0x5D then False else inside) cs of
           (host, rest) \<Rightarrow> (c # host, rest)))"

definition is_authority_end :: "bool \<Rightarrow> jschar \<Rightarrow> bool" where
  "is_authority_end special c \<longleftrightarrow>
     c = 0x2F \<or> c = 0x3F \<or> c = 0x23 \<or> (special \<and> c = 0x5C)"

definition authority_url ::
  "(bool \<Rightarrow> jsstring \<Rightarrow> jsstring option) \<Rightarrow> jsstring \<Rightarrow> jsstring \<Rightarrow> url option" where
  "authority_url H scheme input =
     (let special = is_special scheme;
          authority = takeWhile (\<lambda>c. \<not> is_authority_end special c) input;
          at_seen = (0x40 \<in> set authority);
          buffer = rev (takeWhile (\<lambda>c. c \<noteq> 0x40) (rev authority));
          credentials = take (length authority - length buffer - 1) authority;
          username = (if at_seen then userinfo_encode (takeWhile (\<lambda>c. c \<noteq> 0x3A) credentials)
                      else [])
      in if at_seen \<and> buffer = [] then None
         else
           (case split_host False buffer of
              (hostname, Some port_buffer) \<Rightarrow>
                if hostname = [] then None
                else
                  (case H (\<not> special) hostname of
                     None \<Rightarrow> None
                   | Some host \<Rightarrow>
                       (case port_state (default_port scheme) port_buffer of
                          None \<Rightarrow> None
                        | Some p \<Rightarrow>
                            Some \<lparr>url_protocol = scheme @ js '':'', url_username = username,
                                  url_hostname = host, url_port = p\<rparr>))
            | (hostname, None) \<Rightarrow>
                if special \<and> hostname = [] then None
                else
                  (case H (\<not> special) hostname of
                     None \<Rightarrow> None
                   | Some host \<Rightarrow>
                       Some \<lparr>url_protocol = scheme @ js '':'', url_username = username,
                             url_hostname = host, url_port = []\<rparr>)))"

definition no_host_url :: "jsstring \<Rightarrow> url" where
  "no_host_url scheme =
     \<lparr>url_protocol = scheme @ js '':'', url_username = [], url_hostname = [], url_port = []\<rparr>"

definition is_slash :: "jschar \<Rightarrow> bool" where
  "is_slash c \<longleftrightarrow> c = 0x2F \<or> c = 0x5C"

definition is_drive_letter :: "jsstring \<Rightarrow> bool" where
  "is_drive_letter b \<longleftrightarrow>
     (case b of [c, d] \<Rightarrow> is_alpha c \<and> (d = 0x3A \<or> d = 0x7C) | _ \<Rightarrow> False)"

definition file_url :: "(bool \<Rightarrow> jsstring \<Rightarrow> jsstring option) \<Rightarrow> jsstring \<Rightarrow> url option" where
  "file_url H input =
     (case input of
        c # d # rest \<Rightarrow>
          if is_slash c \<and> is_slash d then
            (let buffer = takeWhile (\<lambda>e. \<not> (is_slash e \<or> e = 0x3F \<or> e = 0x23)) rest
             in if is_drive_letter buffer \<or> buffer = [] then Some (no_host_url (js ''file''))
                else
                  (case H False buffer of
                     None \<Rightarrow> None
                   | Some host \<Rightarrow>
                       Some ((no_host_url (js ''file''))
                               \<lparr>url_hostname := (if host = js ''localhost'' then [] else host)\<rparr>)))
          else Some (no_host_url (js ''file''))
      | _ \<Rightarrow> Some (no_host_url (js ''file'')))"

definition new_URL :: "(bool \<Rightarrow> jsstring \<Rightarrow> jsstring option) \<Rightarrow> url_constructor" where
  "new_URL H input =
     (case scheme_of (url_input input) of
        None \<Rightarrow> None
      | Some (scheme, rest) \<Rightarrow>
          if scheme = js ''file'' then file_url H rest
          else if is_special scheme then authority_url H scheme (dropWhile is_slash rest)
          else
            (case rest of
               c # d # after \<Rightarrow>
                 if c = 0x2F \<and> d = 0x2F then authority_url H scheme after
                 else Some (no_host_url scheme)
             | _ \<Rightarrow> Some (no_host_url scheme)))"

text \<open>
  A sample host parser: a host of lower-case letters is kept as it is, whether opaque or
  a domain; every other host is refused.
\<close>

definition letters_host :: "bool \<Rightarrow> jsstring \<Rightarrow> jsstring option" where
  "letters_host opaque buffer =
     (if buffer \<noteq> [] \<and> list_all (\<lambda>c. 0x61 \<le> c \<and> c \<le> 0x7A) buffer then Some buffer
      else None)"

subsection \<open>The message of an outcome\<close>

text \<open>
  What a run reports to its caller: the message of the error it failed with, or the
  \<open>msg\<close> it wrote to the heartbeat.
\<close>

definition outcome_message :: "'h heartbeat_scheme run \<Rightarrow> jsstring" where
  "outcome_message r = (case outcome r of Inl e \<Rightarrow> message e | Inr u \<Rightarrow> msg (beat r))"

subsection \<open>Sample environments\<close>

text \<open>
  The worked examples below need a concrete runtime. \<open>URL_examples\<close> is a constructor
  that knows a handful of inputs, with the properties the URL class of Node.js gives for
  them (\<open>ssh\<close> has no default port in the URL standard, so an explicit \<open>22\<close> or
  \<open>0\<close> is kept), and throws on everything else. \<open>always r\<close> is a subprocess that
  ends with the result \<open>r\<close> whatever it is asked to run.
\<close>

definition URL_examples :: url_constructor where
  "URL_examples s =
     (if s = js ''ssh://user@host:2222'' then
        Some \<lparr>url_protocol = js ''ssh:'', url_username = js ''user'',
              url_hostname = js ''host'', url_port = js ''2222''\<rparr>
      else if s = js ''ssh://host'' then
        Some \<lparr>url_protocol = js ''ssh:'', url_username = [],
              url_hostname = js ''host'', url_port = []\<rparr>
      else if s = js ''ssh://host:22'' then
        Some \<lparr>url_protocol = js ''ssh:'', url_username = [],
              url_hostname = js ''host'', url_port = js ''22''\<rparr>
      else if s = js ''ssh://host:0'' then
        Some \<lparr>url_protocol = js ''ssh:'', url_username = [],
              url_hostname = js ''host'', url_port = js ''0''\<rparr>
      else if s = js ''ssh://%@host'' then
        Some \<lparr>url_protocol = js ''ssh:'', url_username = js ''%'',
              url_hostname = js ''host'', url_port = []\<rparr>
      else if s = js ''http://host'' then
        Some \<lparr>url_protocol = js ''http:'', url_username = [],
              url_hostname = js ''host'', url_port = []\<rparr>
      else None)"

definition always :: "exec_result \<Rightarrow> executor" where
  "always r call = r"

definition pending :: heartbeat where
  "pending = \<lparr>status = PENDING, msg = []\<rparr>"

section \<open>Properties\<close>

subsection \<open>Strings and truncation\<close>

lemma length_js [simp]: "length (js s) = length s"
  by (simp add: js_def)

lemma js_eq_Nil [simp]: "js s = [] \<longleftrightarrow> s = []"
  by (simp add: js_def)

lemma trim_decomp:
  "\<exists>a b. s = a @ trim s @ b \<and> list_all is_space a \<and> list_all is_space b"
proof -
  let ?a = "takeWhile is_space s"
  let ?m = "dropWhile is_space s"
  let ?b = "rev (takeWhile is_space (rev ?m))"
  have m: "?m = trim s @ ?b"
  proof -
    have "rev (takeWhile is_space (rev ?m) @ dropWhile is_space (rev ?m)) = ?m"
      by (simp only: takeWhile_dropWhile_id rev_rev_ident)
    then have "rev (dropWhile is_space (rev ?m)) @ rev (takeWhile is_space (rev ?m)) = ?m"
      by (simp only: rev_append)
    then show ?thesis unfolding trim_def by (rule sym)
  qed
  have "s = ?a @ ?m" by simp
  with m have "s = ?a @ trim s @ ?b" by simp
  moreover have "list_all is_space ?a"
    by (simp add: list_all_iff) (meson set_takeWhileD)
  moreover have "list_all is_space ?b"
    by (simp add: list_all_iff) (meson set_takeWhileD)
  ultimately show ?thesis by blast
qed

lemma trim_ends:
  assumes "trim s \<noteq> []"
  shows "\<not> is_space (hd (trim s))" and "\<not> is_space (last (trim s))"
proof -
  let ?m = "dropWhile is_space s"
  let ?r = "dropWhile is_space (rev ?m)"
  from assms have r: "?r \<noteq> []" by (simp add: trim_def)
  then have "\<not> is_space (hd ?r)" by (rule hd_dropWhile)
  then show "\<not> is_space (last (trim s))"
    using r by (simp add: trim_def last_rev)
  have m: "?m \<noteq> []"
  proof
    assume e: "?m = []"
    have "?r = []" unfolding e by simp
    with r show False by contradiction
  qed
  then have hm: "\<not> is_space (hd ?m)" by (rule hd_dropWhile)
  have "hd (trim s) = last ?r" using r by (simp add: trim_def hd_rev)
  also have "\<dots> = last (rev ?m)"
    using r by (metis last_appendR takeWhile_dropWhile_id)
  also have "\<dots> = hd ?m" using m by (simp add: last_rev)
  finally show "\<not> is_space (hd (trim s))" using hm by simp
qed

lemma trim_fixed:
  assumes "s \<noteq> []" "\<not> is_space (hd s)" "\<not> is_space (last s)"
  shows "trim s = s"
proof -
  have 1: "dropWhile is_space s = s" using assms by (cases s) auto
  obtain x xs where r: "rev s = x # xs" using assms(1) by (cases "rev s") auto
  have "hd (rev s) = last s" using assms(1) by (simp add: hd_rev)
  with r have "x = last s" by simp
  then have "dropWhile is_space (x # xs) = x # xs"
    using assms(3) by simp
  then have "dropWhile is_space (rev s) = rev s"
    unfolding r .
  with 1 show ?thesis by (simp add: trim_def)
qed

lemma trim_Nil [simp]: "trim [] = []"
  by (simp add: trim_def)

lemma trim_idem: "trim (trim s) = trim s"
proof (cases "trim s = []")
  case True
  then show ?thesis by simp
next
  case False
  then show ?thesis using trim_ends [of s] by (intro trim_fixed) auto
qed

lemma length_trim_le: "length (trim s) \<le> length s"
proof -
  obtain a b where "s = a @ trim s @ b" using trim_decomp by blast
  then have "length s = length a + length (trim s) + length b"
    by (metis length_append add.assoc)
  then show ?thesis by simp
qed

lemma trimOutput_eq:
  "trimOutput s = (if 200 < length (trim s) then take 200 (trim s) @ js ''...'' else trim s)"
  by (simp add: trimOutput_def or_else_def SSH_OUTPUT_MAX_CHARS_def Let_def)

lemma length_trimOutput: "length (trimOutput s) \<le> 203"
  by (simp add: trimOutput_eq)

lemma dot_not_space: "\<not> is_space 0x2E"
  by (simp add: is_space_def)

lemma trimOutput_idem: "trimOutput (trimOutput s) = trimOutput s"
proof (cases "200 < length (trim s)")
  case False
  then show ?thesis by (simp add: trimOutput_eq trim_idem)
next
  case True
  let ?t = "take 200 (trim s) @ js ''...''"
  have ne: "trim s \<noteq> []" using True by auto
  have "hd ?t = hd (trim s)" using True ne by (simp add: hd_append)
  then have h: "\<not> is_space (hd ?t)" using trim_ends(1) [OF ne] by simp
  have "last ?t = 0x2E" by (simp add: js_def)
  then have l: "\<not> is_space (last ?t)" using dot_not_space by simp
  have "trim ?t = ?t" using h l by (intro trim_fixed) (simp_all add: js_def)
  moreover have "length ?t = 203" using True by simp
  moreover have "take 200 ?t = take 200 (trim s)" using True by simp
  ultimately have "trimOutput ?t = ?t" by (simp add: trimOutput_eq)
  then show ?thesis using True by (simp add: trimOutput_eq)
qed


subsection \<open>The escaper\<close>

lemmas sh_chars = SQ_def DQ_def BSL_def NL_def is_blank_def is_operator_char_def
  substitutes_def is_pattern_char_def

lemma grown_Some [simp]: "grown (Some t) cs = Some (t @ cs)"
  by (simp add: grown_def)

lemma grown_None [simp]: "grown None cs = Some cs"
  by (simp add: grown_def)

lemma sh_scan_quoted_then:
  "sh_scan InSingle (Some t) (replace_quotes s @ SQ # rest) = sh_scan Unquoted (Some (t @ s)) rest"
proof (induction s arbitrary: t)
  case Nil
  show ?case by simp
next
  case (Cons c cs)
  show ?case
  proof (cases "c = SQ")
    case True
    have "sh_scan InSingle (Some t) (replace_quotes (c # cs) @ SQ # rest)
        = sh_scan InSingle (Some (t @ [SQ])) (replace_quotes cs @ SQ # rest)"
      using True by (simp add: quote_replacement_def sh_chars)
    then show ?thesis using Cons.IH [of "t @ [SQ]"] True by simp
  next
    case False
    then show ?thesis using Cons.IH [of "t @ [c]"] by simp
  qed
qed

lemma sh_scan_escaped:
  "sh_scan Unquoted None (escapeSshArg x @ rest) = sh_scan Unquoted (Some x) rest"
proof (cases "x = []")
  case True
  then show ?thesis
    by (simp add: escapeSshArg_def sh_chars)
next
  case False
  have "sh_scan Unquoted None ((SQ # replace_quotes x @ [SQ]) @ rest)
      = sh_scan InSingle (Some []) (replace_quotes x @ SQ # rest)"
    by (simp add: sh_chars)
  then show ?thesis
    using False sh_scan_quoted_then [of "[]" x rest] by (simp add: escapeSshArg_def)
qed

text \<open>
  C2. The escaper is a total function on strings; the empty string becomes the
  two-character token \<open>''\<close>; and the shell reads the escaped output of any string,
  whatever operators, substitutions, patterns, comment signs, blanks or quotes it holds,
  as exactly one token: a word whose literal value is the original string.
\<close>

theorem C2_escapeSshArg_roundtrip:
  "escapeSshArg [] = [SQ, SQ] \<and>
   length (escapeSshArg []) = 2 \<and>
   sh_tokens (escapeSshArg s) = Inr [Word s]"
proof -
  have "sh_tokens (escapeSshArg s) = Inr [Word s]"
    using sh_scan_escaped [of s "[]"] by (simp add: sh_tokens_def closed_def)
  then show ?thesis by (simp add: escapeSshArg_def)
qed

text \<open>
  What the quoting is for: left as they are, such strings are not one literal word.
\<close>

lemma sh_tokens_unescaped:
  "sh_tokens (js ''a;reboot'') = Inr [Word (js ''a''), Operator (js '';''), Word (js ''reboot'')]"
  "sh_tokens (js ''a b'') = Inr [Word (js ''a''), Word (js ''b'')]"
  "sh_tokens (js ''$(reboot)'') = Inl Expansion"
  "sh_tokens (js ''`reboot`'') = Inl Expansion"
  "sh_tokens (js ''*'') = Inl Expansion"
  "sh_tokens (js ''#x'') = Inr []"
  "sh_tokens (js ''it's'') = Inl Unterminated"
  by (simp_all add: sh_tokens_def js_def sh_chars operator2_def closed_def followed_by_def)

subsection \<open>Output truncation\<close>

text \<open>
  C8. \<open>trimOutput\<close> first trims: what it keeps is the input without a run of white
  space at either end, and starts and ends with a character that is not white space.
  When more than 200 characters remain the result is the first 200 followed by
  \<open>...\<close>, 203 characters in all; otherwise it is the trimmed string unchanged. The
  truncation written out inside \<open>checkLinux\<close> is the same routine: the diagnostic of
  a failed local Linux check is \<open>trimOutput\<close> of the capture.
\<close>

theorem C8_trimOutput:
  "(\<exists>a b. s = a @ trim s @ b \<and> list_all is_space a \<and> list_all is_space b) \<and>
   (trim s \<noteq> [] \<longrightarrow> \<not> is_space (hd (trim s)) \<and> \<not> is_space (last (trim s))) \<and>
   (200 < length (trim s) \<longrightarrow>
      trimOutput s = take 200 (trim s) @ js ''...'' \<and> length (trimOutput s) = 203) \<and>
   (length (trim s) \<le> 200 \<longrightarrow> trimOutput s = trim s) \<and>
   (linux_name_re n \<and>
    error (ex \<lparr>program = js ''systemctl'', args = [js ''is-active'', n], timeout = 5000\<rparr>) \<noteq> None \<longrightarrow>
      outcome (checkLinux ex n h) =
        Inl (Error (or_else
          (trimOutput
             (or_else (stderr (ex \<lparr>program = js ''systemctl'', args = [js ''is-active'', n], timeout = 5000\<rparr>))
                      (stdout (ex \<lparr>program = js ''systemctl'', args = [js ''is-active'', n], timeout = 5000\<rparr>))))
          (service_is n (js ''not running'')))))"
proof -
  have "linux_name_re n \<Longrightarrow> n \<noteq> []" by (simp add: linux_name_re_def)
  then show ?thesis
    using trim_decomp [of s] trim_ends [of s]
    by (auto simp add: trimOutput_eq checkLinux_def Let_def or_else_def)
qed

lemma trim_replicate:
  "0 < k \<Longrightarrow> \<not> is_space c \<Longrightarrow> trim (replicate k c) = replicate k c"
  by (rule trim_fixed) (simp_all add: hd_replicate last_replicate)

theorem C8_witness:
  "200 < length (trim (replicate 500 (0x78 :: jschar))) \<and>
   length (trimOutput (replicate 500 0x78)) = 203 \<and>
   drop 200 (trimOutput (replicate 500 0x78)) = js ''...'' \<and>
   length (trim (replicate 50 (0x78 :: jschar))) \<le> 200 \<and>
   trimOutput (replicate 50 0x78) = replicate 50 0x78 \<and>
   linux_name_re (js ''nginx'') \<and>
   outcome (checkLinux
              (always \<lparr>error = Some (js ''Command failed''), stdout = [],
                       stderr = replicate 500 0x78\<rparr>)
              (js ''nginx'') pending)
     = Inl (Error (replicate 200 0x78 @ js ''...''))"
proof -
  let ?ex = "always \<lparr>error = Some (js ''Command failed''), stdout = [],
                      stderr = replicate 500 0x78\<rparr>"
  have x: "\<not> is_space 0x78" by (simp add: is_space_def)
  have a: "trim (replicate 500 (0x78 :: jschar)) = replicate 500 0x78"
    using x by (simp add: trim_replicate)
  have b: "trim (replicate 50 (0x78 :: jschar)) = replicate 50 0x78"
    using x by (simp add: trim_replicate)
  have l: "linux_name_re (js ''nginx'')"
    by (simp add: linux_name_re_def js_def is_alnum_def)
  have 1: "length (trimOutput (replicate 500 0x78)) = 203 \<and>
      trimOutput (replicate 500 0x78) = replicate 200 (0x78 :: jschar) @ js ''...'' \<and>
      outcome (checkLinux ?ex (js ''nginx'') pending)
        = Inl (Error (replicate 200 0x78 @ js ''...''))"
    using C8_trimOutput [where s = "replicate 500 0x78" and n = "js ''nginx''" and ex = ?ex
                           and h = pending] a l
    by (simp add: always_def or_else_def)
  have 2: "trimOutput (replicate 50 0x78) = replicate 50 (0x78 :: jschar)"
    using trimOutput_eq [of "replicate 50 0x78"] b by simp
  from 1 2 a b l show ?thesis by simp
qed

subsection \<open>The connection-target parser\<close>

lemma parseSshUrl_Inr:
  "parseSshUrl U s = Inr t \<longleftrightarrow>
     (\<exists>u. U s = Some u \<and> url_protocol u = js ''ssh:'' \<and> url_hostname u \<noteq> [] \<and>
          (if url_username u = [] then userHost t = url_hostname u
           else \<exists>name. decodeURIComponent (url_username u) = Some name \<and>
                  userHost t = name @ js ''@'' @ url_hostname u) \<and>
          port t = (if url_port u = [] then None else Some (url_port u)))"
  by (cases t) (auto simp add: parseSshUrl_def split: option.splits)

lemma parseSshUrl_Inl:
  "parseSshUrl U s = Inl e \<longleftrightarrow>
     (U s = None \<and> e = Error (js ''Invalid SSH URL.'')) \<or>
     (\<exists>u. U s = Some u \<and>
        ((url_protocol u \<noteq> js ''ssh:'' \<and> e = Error (js ''SSH URL must start with ssh://'')) \<or>
         (url_protocol u = js ''ssh:'' \<and> url_hostname u = [] \<and>
            e = Error (js ''SSH URL requires a hostname.'')) \<or>
         (url_protocol u = js ''ssh:'' \<and> url_hostname u \<noteq> [] \<and> url_username u \<noteq> [] \<and>
            decodeURIComponent (url_username u) = None \<and> e = URIError (js ''URI malformed''))))"
  by (auto simp add: parseSshUrl_def split: option.splits)

lemma parsed_port_nonempty: "parseSshUrl U s = Inr t \<Longrightarrow> port t \<noteq> Some []"
  by (auto simp add: parseSshUrl_Inr split: if_splits)

text \<open>
  C6. The parser fails exactly when the input is not a URL, has another scheme than
  \<open>ssh:\<close> or has no hostname, and otherwise returns the decoded user and host and the
  port. The source breaks this where the user name is not a valid percent-encoding:
  \<open>decodeURIComponent\<close> is called outside the \<open>try\<close> that guards \<open>new URL\<close>, so
  for \<open>ssh://%@host\<close>, a URL with the scheme \<open>ssh:\<close> and the hostname \<open>host\<close>,
  the parser throws a \<open>URIError\<close> that is none of its three invalid-target errors.
\<close>

theorem C6_parseSshUrl_uri_error:
  "URL_examples (js ''ssh://%@host'')
     = Some \<lparr>url_protocol = js ''ssh:'', url_username = js ''%'',
             url_hostname = js ''host'', url_port = []\<rparr> \<and>
   decodeURIComponent (js ''%'') = None \<and>
   parseSshUrl URL_examples (js ''ssh://%@host'') = Inl (URIError (js ''URI malformed''))"
  by (simp add: parseSshUrl_def URL_examples_def js_def)

lemma parseSshUrl_examples:
  "parseSshUrl URL_examples (js ''ssh://user@host:2222'')
     = Inr \<lparr>userHost = js ''user@host'', port = Some (js ''2222'')\<rparr>"
  "parseSshUrl URL_examples (js ''ssh://host'') = Inr \<lparr>userHost = js ''host'', port = None\<rparr>"
  "parseSshUrl URL_examples (js ''http://host'') = Inl (Error (js ''SSH URL must start with ssh://''))"
  "parseSshUrl URL_examples (js ''not a url'') = Inl (Error (js ''Invalid SSH URL.''))"
  "parseSshUrl URL_examples (js ''ssh://host:0'') = Inr \<lparr>userHost = js ''host'', port = Some (js ''0'')\<rparr>"
  "parseSshUrl URL_examples (js ''ssh://host:22'') = Inr \<lparr>userHost = js ''host'', port = Some (js ''22'')\<rparr>"
  by (simp_all add: parseSshUrl_def URL_examples_def js_def)

text \<open>The four examples of the specification, on the sample constructor.\<close>

lemma parseSshUrl_specified_examples:
  "parseSshUrl URL_examples (js ''ssh://user@host:2222'')
     = Inr \<lparr>userHost = js ''user@host'', port = Some (js ''2222'')\<rparr> \<and>
   parseSshUrl URL_examples (js ''ssh://host'') = Inr \<lparr>userHost = js ''host'', port = None\<rparr> \<and>
   parseSshUrl URL_examples (js ''http://host'')
     = Inl (Error (js ''SSH URL must start with ssh://'')) \<and>
   parseSshUrl URL_examples (js ''not a url'') = Inl (Error (js ''Invalid SSH URL.''))"
  by (simp add: parseSshUrl_def URL_examples_def js_def)

lemma unat_digit:
  assumes "k < 10"
  shows "unat (of_nat (0x30 + k) :: jschar) = 0x30 + k"
proof -
  have "(0x30 + k) mod 2 ^ LENGTH(16) = 0x30 + k" using assms by simp
  then show ?thesis by (simp only: unat_of_nat)
qed

lemma is_digit_of_nat: "k < 10 \<Longrightarrow> is_digit (of_nat (0x30 + k))"
  using unat_digit [of k] by (simp add: is_digit_def word_le_nat_alt)

lemma decimal_value_snoc:
  "decimal_value (ds @ [c]) = 10 * decimal_value ds + (unat c - 0x30)"
  by (simp add: decimal_value_def)

lemma decimal_is_numeral:
  "decimal n \<noteq> [] \<and> list_all is_digit (decimal n) \<and> decimal_value (decimal n) = n"
proof (induction n rule: decimal.induct)
  case (1 n)
  show ?case
  proof (cases "n < 10")
    case True
    then show ?thesis
      using is_digit_of_nat [of n] unat_digit [of n]
      by (simp add: decimal.simps [of n] decimal_value_def)
  next
    case False
    have m: "n mod 10 < 10" by simp
    from False 1 have ih: "list_all is_digit (decimal (n div 10))"
      "decimal_value (decimal (n div 10)) = n div 10" by simp_all
    show ?thesis
      using False ih is_digit_of_nat [OF m] unat_digit [OF m]
      by (simp add: decimal.simps [of n] decimal_value_snoc)
  qed
qed

lemma port_number_in_decimal: "n \<le> 65535 \<Longrightarrow> port_number_in 0 65535 (decimal n)"
  using decimal_is_numeral [of n] by (simp add: port_number_in_def)

lemma port_state_range:
  assumes "port_state dflt buffer = Some p"
  shows "p = [] \<or> (\<exists>n\<le>65535. p = decimal n)"
proof -
  from assms have "p = [] \<or> (decimal_value buffer \<le> 65535 \<and> p = decimal (decimal_value buffer))"
    by (auto simp add: port_state_def split: if_splits)
  then show ?thesis by blast
qed

lemma authority_url_port:
  assumes "authority_url H scheme input = Some u"
  shows "url_port u = [] \<or> (\<exists>n\<le>65535. url_port u = decimal n)"
proof -
  let ?special = "is_special scheme"
  let ?authority = "takeWhile (\<lambda>c. \<not> is_authority_end ?special c) input"
  let ?buffer = "rev (takeWhile (\<lambda>c. c \<noteq> 0x40) (rev ?authority))"
  obtain hostname rest where sp: "split_host False ?buffer = (hostname, rest)"
    by (cases "split_host False ?buffer")
  show ?thesis
  proof (cases rest)
    case None
    with assms sp have "url_port u = []"
      by (auto simp add: authority_url_def Let_def split: if_splits option.splits)
    then show ?thesis by simp
  next
    case (Some port_buffer)
    with assms sp obtain p where "port_state (default_port scheme) port_buffer = Some p"
      and "url_port u = p"
      by (auto simp add: authority_url_def Let_def split: if_splits option.splits)
    then show ?thesis using port_state_range by blast
  qed
qed

lemma file_url_port: "file_url H input = Some u \<Longrightarrow> url_port u = []"
  by (auto simp add: file_url_def no_host_url_def Let_def split: list.splits if_splits option.splits)

lemma new_URL_port:
  assumes "new_URL H input = Some u"
  shows "url_port u = [] \<or> (\<exists>n\<le>65535. url_port u = decimal n)"
proof -
  from assms obtain scheme rest where s: "scheme_of (url_input input) = Some (scheme, rest)"
    by (auto simp add: new_URL_def split: option.splits)
  have "file_url H rest = Some u \<or> (\<exists>a. authority_url H scheme a = Some u) \<or>
      u = no_host_url scheme"
    using assms s
    by (auto simp add: new_URL_def split: if_splits list.splits)
  then show ?thesis
  proof (elim disjE exE)
    assume "file_url H rest = Some u"
    then show ?thesis using file_url_port by blast
  next
    fix a assume "authority_url H scheme a = Some u"
    then show ?thesis using authority_url_port by blast
  next
    assume "u = no_host_url scheme"
    then show ?thesis by (simp add: no_host_url_def)
  qed
qed

text \<open>
  On the inputs of the examples the constructor, with the sample host parser, returns
  what \<open>URL_examples\<close> records.
\<close>

lemmas url_defs = new_URL_def url_input_def scheme_of_def is_special_def default_port_def
  authority_url_def file_url_def no_host_url_def letters_host_def port_state_def
  is_authority_end_def is_alpha_def is_scheme_char_def is_digit_def to_lower_def
  is_c0_or_space_def is_tab_or_newline_def is_slash_def userinfo_encode_def
  scalar_value_def in_userinfo_set_def decimal_value_def

lemma new_URL_examples:
  "new_URL letters_host (js ''ssh://user@host:2222'') = URL_examples (js ''ssh://user@host:2222'')"
  "new_URL letters_host (js ''ssh://host'') = URL_examples (js ''ssh://host'')"
  "new_URL letters_host (js ''ssh://host:22'') = URL_examples (js ''ssh://host:22'')"
  "new_URL letters_host (js ''ssh://host:0'') = URL_examples (js ''ssh://host:0'')"
  "new_URL letters_host (js ''ssh://%@host'') = URL_examples (js ''ssh://%@host'')"
  "new_URL letters_host (js ''http://host'') = URL_examples (js ''http://host'')"
  "new_URL letters_host (js ''not a url'') = URL_examples (js ''not a url'')"
  by (simp_all add: url_defs URL_examples_def js_def Let_def decimal.simps)

text \<open>
  C7 as stated: the port of a parsed target is absent or an integer in [1,65535]. The
  port state of the URL parser accepts the number 0, \<open>ssh\<close> has no default port, and
  \<open>parseSshUrl\<close> hands the port on as it is: \<open>ssh://host:0\<close> gives the port \<open>0\<close>.
\<close>

theorem C7_counterexample:
  "parseSshUrl (new_URL letters_host) (js ''ssh://host:0'')
     = Inr \<lparr>userHost = js ''host'', port = Some (js ''0'')\<rparr> \<and>
   \<not> port_number_in 1 65535 (js ''0'')"
proof -
  have "\<not> port_number_in 1 65535 (js ''0'')"
    by (simp add: port_number_in_def decimal_value_def js_def)
  moreover have "parseSshUrl (new_URL letters_host) (js ''ssh://host:0'')
     = Inr \<lparr>userHost = js ''host'', port = Some (js ''0'')\<rparr>"
    using parseSshUrl_examples(5) by (simp add: parseSshUrl_def new_URL_examples(4))
  ultimately show ?thesis by simp
qed

text \<open>
  C7, amended. Whatever the host parser accepts and whatever the input, the port of a
  parsed target is absent or a string: the shortest decimal numeral of an integer in
  [0,65535].
\<close>

theorem C7_port_of_parsed_target:
  assumes "parseSshUrl (new_URL H) sshUrl = Inr t"
  shows "port t = None \<or>
         (\<exists>p n. port t = Some p \<and> p = decimal n \<and> n \<le> 65535 \<and> port_number_in 0 65535 p)"
proof -
  from assms obtain u where u: "new_URL H sshUrl = Some u"
    and p: "port t = (if url_port u = [] then None else Some (url_port u))"
    unfolding parseSshUrl_Inr by blast
  show ?thesis
  proof (cases "url_port u = []")
    case True
    with p show ?thesis by simp
  next
    case False
    with new_URL_port [OF u] obtain n where n: "n \<le> 65535" "url_port u = decimal n" by blast
    with p False have "port t = Some (decimal n)" by simp
    then show ?thesis using n(1) port_number_in_decimal [OF n(1)] by blast
  qed
qed

theorem C7_witness:
  "parseSshUrl (new_URL letters_host) (js ''ssh://user@host:2222'')
     = Inr \<lparr>userHost = js ''user@host'', port = Some (js ''2222'')\<rparr> \<and>
   port_number_in 0 65535 (js ''2222'') \<and> js ''2222'' = decimal 2222"
proof -
  have p: "parseSshUrl (new_URL letters_host) (js ''ssh://user@host:2222'')
     = Inr \<lparr>userHost = js ''user@host'', port = Some (js ''2222'')\<rparr>"
    using parseSshUrl_examples(1) by (simp add: parseSshUrl_def new_URL_examples(1))
  have d: "decimal 2222 = js ''2222''"
    by (simp add: decimal.simps js_def)
  show ?thesis
    using C7_port_of_parsed_target [OF p] p d by auto
qed

subsection \<open>The remote invocation\<close>

text \<open>
  C5 as stated: the \<open>-p\<close> pair is present exactly when the target names a port
  other than the default. The pair is there whenever the target names a port at all:
  for \<open>ssh://host:22\<close>, the default port of the transport, the arguments hold
  \<open>-p 22\<close>.
\<close>

theorem C5_counterexample:
  "parseSshUrl URL_examples (js ''ssh://host:22'')
     = Inr \<lparr>userHost = js ''host'', port = Some (js ''22'')\<rparr> \<and>
   map args (snd (execSshCommand URL_examples
                    (always \<lparr>error = None, stdout = js ''active'', stderr = []\<rparr>)
                    (js ''ssh://host:22'') [js ''systemctl'', js ''is-active'', js ''nginx''] 5000))
     = [[js ''-o'', js ''BatchMode=yes'', js ''-o'', js ''ConnectTimeout=5'',
         js ''-p'', js ''22'', js ''host'',
         join (js '' '') (map escapeSshArg [js ''systemctl'', js ''is-active'', js ''nginx''])]]"
  by (simp add: execSshCommand_def parseSshUrl_examples sshArgs_def always_def Let_def)

text \<open>
  C5, amended. For every target that parses and every list of remote tokens, exactly
  one subprocess is invoked, the \<open>ssh\<close> client, and its argument list is: the batch-mode
  option, the connect timeout of five seconds, the pair \<open>-p port\<close> exactly when the
  parsed target has a port, the user and host, and one last argument, the escaped tokens
  joined by single spaces.
\<close>

theorem C5_ssh_argument_list:
  assumes "parseSshUrl U sshUrl = Inr t"
  shows "snd (execSshCommand U ex sshUrl remoteArgs ms) =
           [\<lparr>program = js ''ssh'',
             args = [js ''-o'', js ''BatchMode=yes'', js ''-o'', js ''ConnectTimeout=5''] @
                    (case port t of None \<Rightarrow> [] | Some p \<Rightarrow> [js ''-p'', p]) @
                    [userHost t, join (js '' '') (map escapeSshArg remoteArgs)],
             timeout = ms\<rparr>]"
  using assms parsed_port_nonempty [OF assms]
  by (simp add: execSshCommand_def sshArgs_def Let_def split: option.splits)

theorem C5_witness:
  "parseSshUrl URL_examples (js ''ssh://user@host:2222'')
     = Inr \<lparr>userHost = js ''user@host'', port = Some (js ''2222'')\<rparr> \<and>
   snd (execSshCommand URL_examples (always \<lparr>error = None, stdout = js ''active'', stderr = []\<rparr>)
          (js ''ssh://user@host:2222'') [js ''systemctl'', js ''is-active'', js ''nginx''] 5000)
     = [\<lparr>program = js ''ssh'',
         args = [js ''-o'', js ''BatchMode=yes'', js ''-o'', js ''ConnectTimeout=5'',
                 js ''-p'', js ''2222'', js ''user@host'',
                 join (js '' '') (map escapeSshArg [js ''systemctl'', js ''is-active'', js ''nginx''])],
         timeout = 5000\<rparr>]"
proof -
  have p: "parseSshUrl URL_examples (js ''ssh://user@host:2222'')
     = Inr \<lparr>userHost = js ''user@host'', port = Some (js ''2222'')\<rparr>"
    by (rule parseSshUrl_examples)
  show ?thesis using C5_ssh_argument_list [OF p] p by simp
qed

text \<open>
  The last argument survives the remote shell: it is read back as the list of tokens that
  was passed in, each a literal word.
\<close>

lemma remote_command_line_tokens:
  "sh_tokens (join (js '' '') (map escapeSshArg remoteArgs)) = Inr (map Word remoteArgs)"
proof -
  have "sh_scan Unquoted None (join (js '' '') (map escapeSshArg xs)) = Inr (map Word xs)" for xs
  proof (induction xs rule: induct_list012)
    case 1
    show ?case by (simp add: closed_def)
  next
    case (2 x)
    show ?case using sh_scan_escaped [of x "[]"] by (simp add: closed_def)
  next
    case (3 x y zs)
    have "sh_scan Unquoted None (join (js '' '') (map escapeSshArg (x # y # zs)))
        = sh_scan Unquoted (Some x) (js '' '' @ join (js '' '') (map escapeSshArg (y # zs)))"
      using sh_scan_escaped [of x "js '' '' @ join (js '' '') (map escapeSshArg (y # zs))"]
      by simp
    also have "\<dots> = followed_by [Word x]
                     (sh_scan Unquoted None (join (js '' '') (map escapeSshArg (y # zs))))"
      by (simp add: js_def is_blank_def closed_def)
    finally show ?case using "3.IH"(2) by (simp add: followed_by_def)
  qed
  then show ?thesis by (simp add: sh_tokens_def)
qed

subsection \<open>The outcomes of the strategies\<close>

lemma length_service_is: "length (service_is n w) = 15 + length n + length w"
  by (simp add: service_is_def)

lemma or_else_Nil [simp]: "or_else s [] = s"
  by (simp add: or_else_def)

lemma trimOutput_fixed:
  assumes "s \<noteq> []" "\<not> is_space (hd s)" "\<not> is_space (last s)" "length s \<le> 200"
  shows "trimOutput s = s"
  using assms trim_fixed [of s] by (simp add: trimOutput_eq)

lemma trimOutput_Nil [simp]: "trimOutput [] = []"
  by (simp add: trimOutput_eq)

lemma execSsh_parse_error:
  "parseSshUrl U s = Inl e \<Longrightarrow> execSshCommand U ex s ra ms = (Inl e, [])"
  by (simp add: execSshCommand_def)

lemma execSsh_parsed:
  "parseSshUrl U s = Inr t \<Longrightarrow>
   execSshCommand U ex s ra ms =
     (case error (ex \<lparr>program = js ''ssh'', args = sshArgs t ra, timeout = ms\<rparr>) of
        Some m \<Rightarrow>
          (Inl (Error (or_else
             (trimOutput
                (or_else (stderr (ex \<lparr>program = js ''ssh'', args = sshArgs t ra, timeout = ms\<rparr>))
                   (or_else (stdout (ex \<lparr>program = js ''ssh'', args = sshArgs t ra, timeout = ms\<rparr>)) m)))
             (js ''Failed to execute command over SSH''))),
           [\<lparr>program = js ''ssh'', args = sshArgs t ra, timeout = ms\<rparr>])
      | None \<Rightarrow>
          (Inr (stdout (ex \<lparr>program = js ''ssh'', args = sshArgs t ra, timeout = ms\<rparr>)),
           [\<lparr>program = js ''ssh'', args = sshArgs t ra, timeout = ms\<rparr>]))"
  by (simp add: execSshCommand_def Let_def split: option.splits)

lemma parse_error_literals:
  "trimOutput (js ''Invalid SSH URL.'') = js ''Invalid SSH URL.''"
  "trimOutput (js ''SSH URL must start with ssh://'') = js ''SSH URL must start with ssh://''"
  "trimOutput (js ''SSH URL requires a hostname.'') = js ''SSH URL requires a hostname.''"
  "trimOutput (js ''URI malformed'') = js ''URI malformed''"
  "trimOutput (js ''Failed to execute command over SSH'') = js ''Failed to execute command over SSH''"
  by (rule trimOutput_fixed; simp add: js_def is_space_def)+

lemma parse_error_message:
  assumes "parseSshUrl U s = Inl e"
  shows "trimOutput (message e) = message e \<and> message e \<noteq> [] \<and> length (message e) \<le> 203"
proof -
  from assms consider
      "e = Error (js ''Invalid SSH URL.'')"
    | "e = Error (js ''SSH URL must start with ssh://'')"
    | "e = Error (js ''SSH URL requires a hostname.'')"
    | "e = URIError (js ''URI malformed'')"
    unfolding parseSshUrl_Inl by blast
  then show ?thesis
    by cases (simp_all add: parse_error_literals)
qed

lemma or_else_trimOutput_fixed:
  "trimOutput (or_else (trimOutput x) (js ''Failed to execute command over SSH''))
     = or_else (trimOutput x) (js ''Failed to execute command over SSH'')"
  by (simp add: or_else_def trimOutput_idem parse_error_literals)

lemma length_or_else_trimOutput:
  "length (or_else (trimOutput x) (js ''Failed to execute command over SSH'')) \<le> 203"
  using length_trimOutput [of x] by (simp add: or_else_def)

lemma execSsh_error_message:
  assumes "execSshCommand U ex s ra ms = (Inl e, calls)"
  shows "trimOutput (message e) = message e \<and> message e \<noteq> [] \<and> length (message e) \<le> 203"
proof (cases "parseSshUrl U s")
  case (Inl e')
  with assms have "e = e'" by (simp add: execSsh_parse_error)
  with Inl show ?thesis using parse_error_message by blast
next
  case (Inr t)
  let ?r = "ex \<lparr>program = js ''ssh'', args = sshArgs t ra, timeout = ms\<rparr>"
  from assms Inr obtain m where
    "e = Error (or_else (trimOutput (or_else (stderr ?r) (or_else (stdout ?r) m)))
                  (js ''Failed to execute command over SSH''))"
    by (cases "error ?r") (auto simp add: execSsh_parsed)
  then show ?thesis
    using or_else_trimOutput_fixed length_or_else_trimOutput
    by (simp add: or_else_def)
qed

lemma checkLinuxViaSSH_error:
  assumes "linux_name_re n" and "execSshCommand U ex s [js ''systemctl'', js ''is-active'', n] 5000 = (Inl e, calls)"
  shows "checkLinuxViaSSH U ex n s h
           = \<lparr>outcome = Inl (Error (service_is n (message e))), beat = h, spawned = calls\<rparr>"
proof -
  have n: "n \<noteq> []" using assms(1) by (simp add: linux_name_re_def)
  have m: "or_else (trimOutput (message e)) (js ''not running'') = message e"
    using execSsh_error_message [OF assms(2)] by (simp add: or_else_def)
  show ?thesis
    using assms n m by (simp add: checkLinuxViaSSH_def Let_def)
qed

lemma checkLinuxViaSSH_output:
  assumes "linux_name_re n" and "execSshCommand U ex s [js ''systemctl'', js ''is-active'', n] 5000 = (Inr out, calls)"
  shows "checkLinuxViaSSH U ex n s h =
           (if trimOutput out = js ''active'' then
              \<lparr>outcome = Inr (),
               beat = h\<lparr>status := UP, msg := service_is n (js ''running'')\<rparr>,
               spawned = calls\<rparr>
            else
              \<lparr>outcome = Inl (Error (service_is n (or_else (trimOutput out) (js ''not running'')))),
               beat = h, spawned = calls\<rparr>)"
proof -
  have n: "n \<noteq> []" using assms(1) by (simp add: linux_name_re_def)
  show ?thesis
    using assms n by (simp add: checkLinuxViaSSH_def Let_def)
qed

lemma checkLinux_valid:
  assumes "linux_name_re n"
  shows "checkLinux ex n h =
     (if error (ex \<lparr>program = js ''systemctl'', args = [js ''is-active'', n], timeout = 5000\<rparr>) = None
      then \<lparr>outcome = Inr (),
            beat = h\<lparr>status := UP, msg := service_is n (js ''running'')\<rparr>,
            spawned = [\<lparr>program = js ''systemctl'', args = [js ''is-active'', n], timeout = 5000\<rparr>]\<rparr>
      else \<lparr>outcome = Inl (Error (or_else
               (trimOutput
                  (or_else (stderr (ex \<lparr>program = js ''systemctl'', args = [js ''is-active'', n], timeout = 5000\<rparr>))
                           (stdout (ex \<lparr>program = js ''systemctl'', args = [js ''is-active'', n], timeout = 5000\<rparr>))))
               (service_is n (js ''not running'')))),
            beat = h,
            spawned = [\<lparr>program = js ''systemctl'', args = [js ''is-active'', n], timeout = 5000\<rparr>]\<rparr>)"
proof -
  have n: "n \<noteq> []" using assms by (simp add: linux_name_re_def)
  show ?thesis
    using assms n by (simp add: checkLinux_def Let_def trimOutput_eq)
qed

lemma foo_is_linux_name: "linux_name_re (js ''foo'')"
  by (simp add: linux_name_re_def js_def is_alnum_def)

lemma nginx_is_name: "linux_name_re (js ''nginx'')" "windows_name_re (js ''nginx'')"
  by (simp_all add: linux_name_re_def windows_name_re_def js_def is_alnum_def)

lemma sample_outputs:
  "trimOutput (js ''Unit foo.service not found.'') = js ''Unit foo.service not found.''"
  "trimOutput (js ''active'') = js ''active''"
  "trimOutput (js ''Running'') = js ''Running''"
  "trimOutput (js ''Stopped'') = js ''Stopped''"
  by (rule trimOutput_fixed; simp add: js_def is_space_def)+

lemma remote_unit_not_found:
  "checkLinuxViaSSH URL_examples
     (always \<lparr>error = Some (js ''Command failed''), stdout = [],
              stderr = js ''Unit foo.service not found.''\<rparr>)
     (js ''foo'') (js ''ssh://host'') pending
   = \<lparr>outcome = Inl (Error (service_is (js ''foo'') (js ''Unit foo.service not found.''))),
      beat = pending,
      spawned = [\<lparr>program = js ''ssh'',
                  args = sshArgs \<lparr>userHost = js ''host'', port = None\<rparr>
                           [js ''systemctl'', js ''is-active'', js ''foo''],
                  timeout = 5000\<rparr>]\<rparr>"
  using foo_is_linux_name
  by (simp add: checkLinuxViaSSH_def execSsh_parsed [OF parseSshUrl_examples(2)] always_def
        or_else_def sample_outputs Let_def)

text \<open>
  C3 as stated: both Linux strategies turn an executor failure into a failure whose
  message is the truncated diagnostic itself. The remote strategy wraps it: a remote
  command that fails with \<open>Unit foo.service not found.\<close> on its error stream gives the
  message \<open>Service 'foo' is Unit foo.service not found..\<close>
\<close>

theorem C3_counterexample:
  "linux_name_re (js ''foo'') \<and>
   outcome (checkLinuxViaSSH URL_examples
              (always \<lparr>error = Some (js ''Command failed''), stdout = [],
                       stderr = js ''Unit foo.service not found.''\<rparr>)
              (js ''foo'') (js ''ssh://host'') pending)
     = Inl (Error (service_is (js ''foo'') (js ''Unit foo.service not found.''))) \<and>
   service_is (js ''foo'') (js ''Unit foo.service not found.'')
     \<noteq> trimOutput (js ''Unit foo.service not found.'')"
proof -
  have "length (service_is (js ''foo'') (js ''Unit foo.service not found.''))
      \<noteq> length (js ''Unit foo.service not found.'')"
    by (simp add: length_service_is)
  then have "service_is (js ''foo'') (js ''Unit foo.service not found.'')
      \<noteq> js ''Unit foo.service not found.''"
    by metis
  then show ?thesis
    by (simp add: remote_unit_not_found foo_is_linux_name sample_outputs)
qed

text \<open>
  C3, amended. For a valid Linux service name the local strategy runs
  \<open>systemctl is-active name\<close> once; when that succeeds the outcome is \<open>UP\<close> with
  the running message, and when it fails the message is the truncated diagnostic (the
  error stream, else the output) if that is not empty, else the not-running message. The
  remote strategy is \<open>UP\<close> only when the remote command succeeds and its truncated
  output is \<open>active\<close>; with any other output it fails with
  \<open>Service 'name' is output.\<close>, reading \<open>not running\<close> for an empty output; and when
  \<open>execSshCommand\<close> fails, with \<open>Service 'name' is diagnostic.\<close> around its message:
  the parser's message and no subprocess for a target that does not parse, and otherwise
  the truncated diagnostic of the \<open>ssh\<close> run (error stream, else output, else the
  message of the execution error, else a fixed text), never empty and at most 203
  characters long.
\<close>

theorem C3_linux_outcomes:
  assumes "linux_name_re n"
  shows
    "checkLinux ex n h =
       (if error (ex \<lparr>program = js ''systemctl'', args = [js ''is-active'', n], timeout = 5000\<rparr>) = None
        then \<lparr>outcome = Inr (),
              beat = h\<lparr>status := UP, msg := service_is n (js ''running'')\<rparr>,
              spawned = [\<lparr>program = js ''systemctl'', args = [js ''is-active'', n], timeout = 5000\<rparr>]\<rparr>
        else \<lparr>outcome = Inl (Error (or_else
                 (trimOutput
                    (or_else (stderr (ex \<lparr>program = js ''systemctl'', args = [js ''is-active'', n], timeout = 5000\<rparr>))
                             (stdout (ex \<lparr>program = js ''systemctl'', args = [js ''is-active'', n], timeout = 5000\<rparr>))))
                 (service_is n (js ''not running'')))),
              beat = h,
              spawned = [\<lparr>program = js ''systemctl'', args = [js ''is-active'', n], timeout = 5000\<rparr>]\<rparr>) \<and>
     checkLinuxViaSSH U ex n sshUrl h =
       (case execSshCommand U ex sshUrl [js ''systemctl'', js ''is-active'', n] 5000 of
          (Inl e, calls) \<Rightarrow>
            \<lparr>outcome = Inl (Error (service_is n (message e))), beat = h, spawned = calls\<rparr>
        | (Inr out, calls) \<Rightarrow>
            if trimOutput out = js ''active'' then
              \<lparr>outcome = Inr (),
               beat = h\<lparr>status := UP, msg := service_is n (js ''running'')\<rparr>,
               spawned = calls\<rparr>
            else
              \<lparr>outcome = Inl (Error (service_is n (or_else (trimOutput out) (js ''not running'')))),
               beat = h, spawned = calls\<rparr>) \<and>
     (\<forall>e calls. execSshCommand U ex sshUrl [js ''systemctl'', js ''is-active'', n] 5000 = (Inl e, calls) \<longrightarrow>
        message e \<noteq> [] \<and> length (message e) \<le> 203 \<and>
        (case parseSshUrl U sshUrl of
           Inl e' \<Rightarrow> e = e' \<and> calls = []
         | Inr t \<Rightarrow>
             (\<exists>m. error (ex \<lparr>program = js ''ssh'',
                               args = sshArgs t [js ''systemctl'', js ''is-active'', n],
                               timeout = 5000\<rparr>) = Some m \<and>
                  message e =
                    or_else
                      (trimOutput
                         (or_else (stderr (ex \<lparr>program = js ''ssh'',
                                      args = sshArgs t [js ''systemctl'', js ''is-active'', n],
                                      timeout = 5000\<rparr>))
                            (or_else (stdout (ex \<lparr>program = js ''ssh'',
                                         args = sshArgs t [js ''systemctl'', js ''is-active'', n],
                                         timeout = 5000\<rparr>)) m)))
                      (js ''Failed to execute command over SSH'')))) \<and>
     (\<forall>out calls. execSshCommand U ex sshUrl [js ''systemctl'', js ''is-active'', n] 5000 = (Inr out, calls) \<longrightarrow>
        (\<exists>t. parseSshUrl U sshUrl = Inr t \<and>
             calls = [\<lparr>program = js ''ssh'',
                       args = sshArgs t [js ''systemctl'', js ''is-active'', n],
                       timeout = 5000\<rparr>] \<and>
             error (ex \<lparr>program = js ''ssh'',
                          args = sshArgs t [js ''systemctl'', js ''is-active'', n],
                          timeout = 5000\<rparr>) = None \<and>
             out = stdout (ex \<lparr>program = js ''ssh'',
                                args = sshArgs t [js ''systemctl'', js ''is-active'', n],
                                timeout = 5000\<rparr>)))"
proof (intro conjI allI impI)
  show "checkLinux ex n h =
       (if error (ex \<lparr>program = js ''systemctl'', args = [js ''is-active'', n], timeout = 5000\<rparr>) = None
        then \<lparr>outcome = Inr (),
              beat = h\<lparr>status := UP, msg := service_is n (js ''running'')\<rparr>,
              spawned = [\<lparr>program = js ''systemctl'', args = [js ''is-active'', n], timeout = 5000\<rparr>]\<rparr>
        else \<lparr>outcome = Inl (Error (or_else
                 (trimOutput
                    (or_else (stderr (ex \<lparr>program = js ''systemctl'', args = [js ''is-active'', n], timeout = 5000\<rparr>))
                             (stdout (ex \<lparr>program = js ''systemctl'', args = [js ''is-active'', n], timeout = 5000\<rparr>))))
                 (service_is n (js ''not running'')))),
              beat = h,
              spawned = [\<lparr>program = js ''systemctl'', args = [js ''is-active'', n], timeout = 5000\<rparr>]\<rparr>)"
    using assms by (rule checkLinux_valid)
next
  let ?x = "execSshCommand U ex sshUrl [js ''systemctl'', js ''is-active'', n] 5000"
  obtain res calls where x: "?x = (res, calls)" by (cases ?x)
  show "checkLinuxViaSSH U ex n sshUrl h =
       (case ?x of
          (Inl e, calls) \<Rightarrow>
            \<lparr>outcome = Inl (Error (service_is n (message e))), beat = h, spawned = calls\<rparr>
        | (Inr out, calls) \<Rightarrow>
            if trimOutput out = js ''active'' then
              \<lparr>outcome = Inr (),
               beat = h\<lparr>status := UP, msg := service_is n (js ''running'')\<rparr>,
               spawned = calls\<rparr>
            else
              \<lparr>outcome = Inl (Error (service_is n (or_else (trimOutput out) (js ''not running'')))),
               beat = h, spawned = calls\<rparr>)"
  proof (cases res)
    case (Inl e)
    with x have "?x = (Inl e, calls)" by simp
    then show ?thesis
      using checkLinuxViaSSH_error [OF assms, of U ex sshUrl e calls h] by simp
  next
    case (Inr out)
    with x have "?x = (Inr out, calls)" by simp
    then show ?thesis
      using checkLinuxViaSSH_output [OF assms, of U ex sshUrl out calls h] by simp
  qed
next
  fix e calls
  assume a: "execSshCommand U ex sshUrl [js ''systemctl'', js ''is-active'', n] 5000 = (Inl e, calls)"
  show "message e \<noteq> []" and "length (message e) \<le> 203"
    using execSsh_error_message [OF a] by simp_all
  show "case parseSshUrl U sshUrl of
           Inl e' \<Rightarrow> e = e' \<and> calls = []
         | Inr t \<Rightarrow>
             (\<exists>m. error (ex \<lparr>program = js ''ssh'',
                               args = sshArgs t [js ''systemctl'', js ''is-active'', n],
                               timeout = 5000\<rparr>) = Some m \<and>
                  message e =
                    or_else
                      (trimOutput
                         (or_else (stderr (ex \<lparr>program = js ''ssh'',
                                      args = sshArgs t [js ''systemctl'', js ''is-active'', n],
                                      timeout = 5000\<rparr>))
                            (or_else (stdout (ex \<lparr>program = js ''ssh'',
                                         args = sshArgs t [js ''systemctl'', js ''is-active'', n],
                                         timeout = 5000\<rparr>)) m)))
                      (js ''Failed to execute command over SSH''))"
  proof (cases "parseSshUrl U sshUrl")
    case (Inl e')
    then show ?thesis using a by (simp add: execSsh_parse_error)
  next
    case (Inr t)
    then show ?thesis using a
      by (cases "error (ex \<lparr>program = js ''ssh'',
                               args = sshArgs t [js ''systemctl'', js ''is-active'', n],
                               timeout = 5000\<rparr>)")
         (auto simp add: execSsh_parsed)
  qed
next
  fix out calls
  assume a: "execSshCommand U ex sshUrl [js ''systemctl'', js ''is-active'', n] 5000 = (Inr out, calls)"
  show "\<exists>t. parseSshUrl U sshUrl = Inr t \<and>
             calls = [\<lparr>program = js ''ssh'',
                       args = sshArgs t [js ''systemctl'', js ''is-active'', n],
                       timeout = 5000\<rparr>] \<and>
             error (ex \<lparr>program = js ''ssh'',
                          args = sshArgs t [js ''systemctl'', js ''is-active'', n],
                          timeout = 5000\<rparr>) = None \<and>
             out = stdout (ex \<lparr>program = js ''ssh'',
                                args = sshArgs t [js ''systemctl'', js ''is-active'', n],
                                timeout = 5000\<rparr>)"
  proof (cases "parseSshUrl U sshUrl")
    case (Inl e')
    then show ?thesis using a by (simp add: execSsh_parse_error)
  next
    case (Inr t)
    then show ?thesis using a
      by (cases "error (ex \<lparr>program = js ''ssh'',
                               args = sshArgs t [js ''systemctl'', js ''is-active'', n],
                               timeout = 5000\<rparr>)")
         (auto simp add: execSsh_parsed)
  qed
qed

theorem C3_witness:
  "linux_name_re (js ''foo'') \<and>
   checkLinux (always \<lparr>error = None, stdout = js ''active'', stderr = []\<rparr>) (js ''foo'') pending
     = \<lparr>outcome = Inr (),
        beat = \<lparr>status = UP, msg = service_is (js ''foo'') (js ''running'')\<rparr>,
        spawned = [\<lparr>program = js ''systemctl'', args = [js ''is-active'', js ''foo''],
                    timeout = 5000\<rparr>]\<rparr> \<and>
   outcome (checkLinuxViaSSH URL_examples
              (always \<lparr>error = None, stdout = js ''active'', stderr = []\<rparr>)
              (js ''foo'') (js ''ssh://host'') pending) = Inr () \<and>
   outcome (checkLinuxViaSSH URL_examples
              (always \<lparr>error = Some (js ''Command failed''), stdout = [],
                       stderr = js ''Unit foo.service not found.''\<rparr>)
              (js ''foo'') (js ''ssh://host'') pending)
     = Inl (Error (service_is (js ''foo'') (js ''Unit foo.service not found.'')))"
proof -
  let ?ok = "always \<lparr>error = None, stdout = js ''active'', stderr = []\<rparr>"
  let ?bad = "always \<lparr>error = Some (js ''Command failed''), stdout = [],
                       stderr = js ''Unit foo.service not found.''\<rparr>"
  note p = parseSshUrl_examples(2)
  have 1: "checkLinux ?ok (js ''foo'') pending
     = \<lparr>outcome = Inr (),
        beat = \<lparr>status = UP, msg = service_is (js ''foo'') (js ''running'')\<rparr>,
        spawned = [\<lparr>program = js ''systemctl'', args = [js ''is-active'', js ''foo''],
                    timeout = 5000\<rparr>]\<rparr>"
    using C3_linux_outcomes [OF foo_is_linux_name, where ex = ?ok and h = pending
                               and U = URL_examples and sshUrl = "js ''ssh://host''"]
    by (simp add: always_def pending_def)
  have 2: "outcome (checkLinuxViaSSH URL_examples ?ok (js ''foo'') (js ''ssh://host'') pending) = Inr ()"
    using C3_linux_outcomes [OF foo_is_linux_name, where ex = ?ok and h = pending
                               and U = URL_examples and sshUrl = "js ''ssh://host''"]
    by (simp add: execSsh_parsed [OF p] always_def sample_outputs)
  have 3: "outcome (checkLinuxViaSSH URL_examples ?bad (js ''foo'') (js ''ssh://host'') pending)
     = Inl (Error (service_is (js ''foo'') (js ''Unit foo.service not found.'')))"
    using C3_linux_outcomes [OF foo_is_linux_name, where ex = ?bad and h = pending
                               and U = URL_examples and sshUrl = "js ''ssh://host''"]
    by (simp add: execSsh_parsed [OF p] always_def sample_outputs or_else_def)
  from 1 2 3 foo_is_linux_name show ?thesis by simp
qed

lemma Nil_eq_js [simp]: "[] = js s \<longleftrightarrow> s = []"
  by (simp add: js_def)

lemma checkWindows_valid:
  assumes "windows_name_re n"
  shows "checkWindows ex n h =
     (let c = \<lparr>program = js ''powershell'',
                args = [js ''-NoProfile'', js ''-NonInteractive'', js ''-Command'',
                        get_service_command n],
                timeout = 5000\<rparr>;
          r = ex c
      in if error r \<noteq> None \<or> stderr r \<noteq> [] then
           \<lparr>outcome = Inl (Error (service_is n (js ''not running/found''))),
            beat = h, spawned = [c]\<rparr>
         else if trimOutput (stdout r) = js ''Running'' then
           \<lparr>outcome = Inr (),
            beat = h\<lparr>status := UP, msg := service_is n (js ''running'')\<rparr>,
            spawned = [c]\<rparr>
         else
           \<lparr>outcome = Inl (Error (service_is n (trimOutput (stdout r)))),
            beat = h, spawned = [c]\<rparr>)"
  using assms by (simp add: checkWindows_def Let_def trimOutput_eq or_else_def)

lemma checkWindowsViaSSH_parse_error:
  assumes "windows_name_re n" and "parseSshUrl U s = Inl e"
  shows "checkWindowsViaSSH U ex n s h
           = \<lparr>outcome = Inl (Error (service_is n (js ''not running/found''))),
              beat = h, spawned = []\<rparr>"
  using assms by (simp add: checkWindowsViaSSH_def Let_def execSsh_parse_error)

lemma checkWindowsViaSSH_parsed:
  assumes "windows_name_re n" and "parseSshUrl U s = Inr t"
  shows "checkWindowsViaSSH U ex n s h =
     (let c = \<lparr>program = js ''ssh'',
                args = sshArgs t [js ''powershell'', js ''-NoProfile'', js ''-NonInteractive'',
                                  js ''-Command'', get_service_command n],
                timeout = 5000\<rparr>;
          r = ex c
      in if error r \<noteq> None then
           \<lparr>outcome = Inl (Error (service_is n (js ''not running/found''))),
            beat = h, spawned = [c]\<rparr>
         else if trimOutput (stdout r) = js ''Running'' then
           \<lparr>outcome = Inr (),
            beat = h\<lparr>status := UP, msg := service_is n (js ''running'')\<rparr>,
            spawned = [c]\<rparr>
         else
           \<lparr>outcome = Inl (Error (service_is n (or_else (trimOutput (stdout r))
                                                     (js ''not running'')))),
            beat = h, spawned = [c]\<rparr>)"
proof (cases "error (ex \<lparr>program = js ''ssh'',
                args = sshArgs t [js ''powershell'', js ''-NoProfile'', js ''-NonInteractive'',
                                  js ''-Command'', get_service_command n],
                timeout = 5000\<rparr>)")
  case None
  then show ?thesis
    using assms by (simp add: checkWindowsViaSSH_def Let_def execSsh_parsed)
next
  case (Some m)
  then show ?thesis
    using assms by (simp add: checkWindowsViaSSH_def Let_def execSsh_parsed)
qed

text \<open>
  C4 as stated: on both Windows strategies any output other than \<open>Running\<close> gives the
  message \<open>Service 'name' is output.\<close> The remote strategy reads an empty output as
  \<open>not running\<close>: by the claim the message would be \<open>Service 'nginx' is .\<close>
\<close>

theorem C4_counterexample:
  "windows_name_re (js ''nginx'') \<and>
   outcome (checkWindowsViaSSH URL_examples (always \<lparr>error = None, stdout = [], stderr = []\<rparr>)
              (js ''nginx'') (js ''ssh://host'') pending)
     = Inl (Error (service_is (js ''nginx'') (js ''not running''))) \<and>
   service_is (js ''nginx'') (js ''not running'') \<noteq> service_is (js ''nginx'') (trimOutput [])"
proof -
  have 1: "outcome (checkWindowsViaSSH URL_examples
                      (always \<lparr>error = None, stdout = [], stderr = []\<rparr>)
                      (js ''nginx'') (js ''ssh://host'') pending)
     = Inl (Error (service_is (js ''nginx'') (js ''not running'')))"
    by (simp add: checkWindowsViaSSH_parsed [OF nginx_is_name(2) parseSshUrl_examples(2)]
          always_def Let_def or_else_def)
  have "length (service_is (js ''nginx'') (js ''not running''))
      \<noteq> length (service_is (js ''nginx'') (trimOutput []))"
    by (simp add: length_service_is)
  then have 2: "service_is (js ''nginx'') (js ''not running'')
      \<noteq> service_is (js ''nginx'') (trimOutput [])"
    by metis
  from 1 2 nginx_is_name(2) show ?thesis by simp
qed

text \<open>
  C4, amended. For a valid Windows service name the local strategy runs the status query
  once; it fails with the \<open>not running/found\<close> message when the execution errs or
  anything was written to the error stream, is \<open>UP\<close> with the running message when
  the truncated output is \<open>Running\<close>, and otherwise fails with
  \<open>Service 'name' is output.\<close> The remote strategy fails with the
  \<open>not running/found\<close> message when the target does not parse (no subprocess is run)
  or the \<open>ssh\<close> run errs, is \<open>UP\<close> when the truncated output is \<open>Running\<close>, and
  otherwise fails with \<open>Service 'name' is output.\<close>, reading \<open>not running\<close> for an
  empty output.
\<close>

theorem C4_windows_outcomes:
  assumes "windows_name_re n"
  shows
    "checkWindows ex n h =
       (let c = \<lparr>program = js ''powershell'',
                  args = [js ''-NoProfile'', js ''-NonInteractive'', js ''-Command'',
                          get_service_command n],
                  timeout = 5000\<rparr>;
            r = ex c
        in if error r \<noteq> None \<or> stderr r \<noteq> [] then
             \<lparr>outcome = Inl (Error (service_is n (js ''not running/found''))),
              beat = h, spawned = [c]\<rparr>
           else if trimOutput (stdout r) = js ''Running'' then
             \<lparr>outcome = Inr (),
              beat = h\<lparr>status := UP, msg := service_is n (js ''running'')\<rparr>,
              spawned = [c]\<rparr>
           else
             \<lparr>outcome = Inl (Error (service_is n (trimOutput (stdout r)))),
              beat = h, spawned = [c]\<rparr>) \<and>
     (case parseSshUrl U sshUrl of
        Inl e \<Rightarrow>
          checkWindowsViaSSH U ex n sshUrl h
            = \<lparr>outcome = Inl (Error (service_is n (js ''not running/found''))),
               beat = h, spawned = []\<rparr>
      | Inr t \<Rightarrow>
          checkWindowsViaSSH U ex n sshUrl h =
            (let c = \<lparr>program = js ''ssh'',
                       args = sshArgs t [js ''powershell'', js ''-NoProfile'',
                                         js ''-NonInteractive'', js ''-Command'',
                                         get_service_command n],
                       timeout = 5000\<rparr>;
                 r = ex c
             in if error r \<noteq> None then
                  \<lparr>outcome = Inl (Error (service_is n (js ''not running/found''))),
                   beat = h, spawned = [c]\<rparr>
                else if trimOutput (stdout r) = js ''Running'' then
                  \<lparr>outcome = Inr (),
                   beat = h\<lparr>status := UP, msg := service_is n (js ''running'')\<rparr>,
                   spawned = [c]\<rparr>
                else
                  \<lparr>outcome = Inl (Error (service_is n (or_else (trimOutput (stdout r))
                                                            (js ''not running'')))),
                   beat = h, spawned = [c]\<rparr>))"
proof (cases "parseSshUrl U sshUrl")
  case (Inl e)
  then show ?thesis
    using checkWindows_valid [OF assms, of ex h]
      checkWindowsViaSSH_parse_error [OF assms Inl, of ex h]
    by simp
next
  case (Inr t)
  then show ?thesis
    using checkWindows_valid [OF assms, of ex h]
      checkWindowsViaSSH_parsed [OF assms Inr, of ex h]
    by simp
qed

theorem C4_witness:
  "windows_name_re (js ''nginx'') \<and>
   outcome (checkWindows (always \<lparr>error = None, stdout = js ''Stopped'', stderr = []\<rparr>)
              (js ''nginx'') pending)
     = Inl (Error (service_is (js ''nginx'') (js ''Stopped''))) \<and>
   outcome (checkWindows (always \<lparr>error = None, stdout = js ''Running'', stderr = []\<rparr>)
              (js ''nginx'') pending) = Inr () \<and>
   outcome (checkWindowsViaSSH URL_examples
              (always \<lparr>error = None, stdout = js ''Running'', stderr = []\<rparr>)
              (js ''nginx'') (js ''ssh://host'') pending) = Inr () \<and>
   outcome (checkWindowsViaSSH URL_examples
              (always \<lparr>error = Some (js ''Command failed''), stdout = [],
                       stderr = js ''Connection refused''\<rparr>)
              (js ''nginx'') (js ''ssh://host'') pending)
     = Inl (Error (service_is (js ''nginx'') (js ''not running/found''))) \<and>
   outcome (checkWindowsViaSSH URL_examples
              (always \<lparr>error = None, stdout = js ''Running'', stderr = []\<rparr>)
              (js ''nginx'') (js ''not a url'') pending)
     = Inl (Error (service_is (js ''nginx'') (js ''not running/found'')))"
proof -
  note w = nginx_is_name(2)
  have 1: "outcome (checkWindows (always \<lparr>error = None, stdout = js ''Stopped'', stderr = []\<rparr>)
              (js ''nginx'') pending)
     = Inl (Error (service_is (js ''nginx'') (js ''Stopped'')))"
    using C4_windows_outcomes [OF w, where h = pending and U = URL_examples
        and sshUrl = "js ''ssh://host''"
        and ex = "always \<lparr>error = None, stdout = js ''Stopped'', stderr = []\<rparr>"]
    by (simp add: always_def Let_def sample_outputs) (simp add: js_def)
  have 2: "outcome (checkWindows (always \<lparr>error = None, stdout = js ''Running'', stderr = []\<rparr>)
              (js ''nginx'') pending) = Inr () \<and>
      outcome (checkWindowsViaSSH URL_examples
              (always \<lparr>error = None, stdout = js ''Running'', stderr = []\<rparr>)
              (js ''nginx'') (js ''ssh://host'') pending) = Inr ()"
    using C4_windows_outcomes [OF w, where h = pending and U = URL_examples
        and sshUrl = "js ''ssh://host''"
        and ex = "always \<lparr>error = None, stdout = js ''Running'', stderr = []\<rparr>"]
    by (simp add: always_def Let_def sample_outputs parseSshUrl_examples)
  have 3: "outcome (checkWindowsViaSSH URL_examples
              (always \<lparr>error = Some (js ''Command failed''), stdout = [],
                       stderr = js ''Connection refused''\<rparr>)
              (js ''nginx'') (js ''ssh://host'') pending)
     = Inl (Error (service_is (js ''nginx'') (js ''not running/found'')))"
    using C4_windows_outcomes [OF w, where h = pending and U = URL_examples
        and sshUrl = "js ''ssh://host''"
        and ex = "always \<lparr>error = Some (js ''Command failed''), stdout = [],
                       stderr = js ''Connection refused''\<rparr>"]
    by (simp add: always_def Let_def parseSshUrl_examples)
  have 4: "outcome (checkWindowsViaSSH URL_examples
              (always \<lparr>error = None, stdout = js ''Running'', stderr = []\<rparr>)
              (js ''nginx'') (js ''not a url'') pending)
     = Inl (Error (service_is (js ''nginx'') (js ''not running/found'')))"
    using C4_windows_outcomes [OF w, where h = pending and U = URL_examples
        and sshUrl = "js ''not a url''"
        and ex = "always \<lparr>error = None, stdout = js ''Running'', stderr = []\<rparr>"]
    by (simp add: parseSshUrl_examples)
  from 1 2 3 4 w show ?thesis by simp
qed

subsection \<open>The length of messages\<close>

lemma length_invalid_names:
  "length linux_invalid_name = 71" "length windows_invalid_name = 81"
  by (simp_all add: linux_invalid_name_def windows_invalid_name_def)

lemma length_or_else_le:
  "length a \<le> k \<Longrightarrow> length b \<le> k \<Longrightarrow> length (or_else a b) \<le> k"
  by (simp add: or_else_def)

lemma checkLinux_message_le:
  "length (outcome_message (checkLinux ex n h)) \<le> 218 + length n"
proof (cases "linux_name_re n")
  case False
  then show ?thesis
    by (simp add: checkLinux_def outcome_message_def length_invalid_names)
next
  case True
  let ?r = "ex \<lparr>program = js ''systemctl'', args = [js ''is-active'', n], timeout = 5000\<rparr>"
  show ?thesis
  proof (cases "error ?r = None")
    case True
    then show ?thesis
      by (simp add: checkLinux_valid [OF \<open>linux_name_re n\<close>] outcome_message_def
            length_service_is)
  next
    case False
    have "length (or_else (trimOutput (or_else (stderr ?r) (stdout ?r)))
                    (service_is n (js ''not running''))) \<le> 218 + length n"
      using length_trimOutput [of "or_else (stderr ?r) (stdout ?r)"]
      by (intro length_or_else_le) (simp_all add: length_service_is)
    then show ?thesis
      using False
      by (simp add: checkLinux_valid [OF \<open>linux_name_re n\<close>] outcome_message_def
            length_service_is)
  qed
qed

lemma checkWindows_message_le:
  "length (outcome_message (checkWindows ex n h)) \<le> 218 + length n"
proof (cases "windows_name_re n")
  case False
  then show ?thesis
    by (simp add: checkWindows_def outcome_message_def length_invalid_names)
next
  case True
  let ?r = "ex \<lparr>program = js ''powershell'',
                args = [js ''-NoProfile'', js ''-NonInteractive'', js ''-Command'',
                        get_service_command n],
                timeout = 5000\<rparr>"
  have "length (service_is n (trimOutput (stdout ?r))) \<le> 218 + length n"
    using length_trimOutput [of "stdout ?r"] by (simp add: length_service_is)
  then show ?thesis
    by (simp add: checkWindows_valid [OF True] outcome_message_def Let_def length_service_is)
qed

lemma checkLinuxViaSSH_message_le:
  "length (outcome_message (checkLinuxViaSSH U ex n s h)) \<le> 218 + length n"
proof (cases "linux_name_re n")
  case False
  then show ?thesis
    by (simp add: checkLinuxViaSSH_def outcome_message_def length_invalid_names)
next
  case True
  obtain res calls where x:
    "execSshCommand U ex s [js ''systemctl'', js ''is-active'', n] 5000 = (res, calls)"
    by (cases "execSshCommand U ex s [js ''systemctl'', js ''is-active'', n] 5000")
  show ?thesis
  proof (cases res)
    case (Inl e)
    with x have y: "execSshCommand U ex s [js ''systemctl'', js ''is-active'', n] 5000 = (Inl e, calls)"
      by simp
    have "length (message e) \<le> 203" using execSsh_error_message [OF y] by simp
    then show ?thesis
      by (simp add: checkLinuxViaSSH_error [OF True y] outcome_message_def length_service_is)
  next
    case (Inr out)
    with x have y: "execSshCommand U ex s [js ''systemctl'', js ''is-active'', n] 5000 = (Inr out, calls)"
      by simp
    have "length (or_else (trimOutput out) (js ''not running'')) \<le> 203"
      using length_trimOutput [of out] by (intro length_or_else_le) simp_all
    then show ?thesis
      by (simp add: checkLinuxViaSSH_output [OF True y] outcome_message_def length_service_is)
  qed
qed

lemma checkWindowsViaSSH_message_le:
  "length (outcome_message (checkWindowsViaSSH U ex n s h)) \<le> 218 + length n"
proof (cases "windows_name_re n")
  case False
  then show ?thesis
    by (simp add: checkWindowsViaSSH_def outcome_message_def length_invalid_names)
next
  case True
  show ?thesis
  proof (cases "parseSshUrl U s")
    case (Inl e)
    then show ?thesis
      by (simp add: checkWindowsViaSSH_parse_error [OF True Inl] outcome_message_def
            length_service_is)
  next
    case (Inr t)
    let ?r = "ex \<lparr>program = js ''ssh'',
                args = sshArgs t [js ''powershell'', js ''-NoProfile'', js ''-NonInteractive'',
                                  js ''-Command'', get_service_command n],
                timeout = 5000\<rparr>"
    have "length (or_else (trimOutput (stdout ?r)) (js ''not running'')) \<le> 203"
      using length_trimOutput [of "stdout ?r"] by (intro length_or_else_le) simp_all
    then show ?thesis
      by (simp add: checkWindowsViaSSH_parsed [OF True Inr] outcome_message_def Let_def
            length_service_is)
  qed
qed

lemma checkViaSSH_message_le:
  "length (outcome_message (checkViaSSH U ex m h))
     \<le> 218 + length (system_service_name m) + length (system_service_ssh_platform m)"
proof -
  let ?p = "or_else (system_service_ssh_platform m) (js ''linux'')"
  consider (none) "system_service_ssh_url m = []"
    | (win) "system_service_ssh_url m \<noteq> []" "?p = js ''win32''"
    | (lin) "system_service_ssh_url m \<noteq> []" "?p \<noteq> js ''win32''" "?p = js ''linux''"
    | (other) "system_service_ssh_url m \<noteq> []" "?p \<noteq> js ''win32''" "?p \<noteq> js ''linux''"
    by blast
  then show ?thesis
  proof cases
    case none
    then show ?thesis by (simp add: checkViaSSH_def outcome_message_def)
  next
    case win
    then show ?thesis
      using checkWindowsViaSSH_message_le
              [of U ex "system_service_name m" "system_service_ssh_url m" h]
      by (simp add: checkViaSSH_def Let_def)
  next
    case lin
    then show ?thesis
      using checkLinuxViaSSH_message_le
              [of U ex "system_service_name m" "system_service_ssh_url m" h]
      by (simp add: checkViaSSH_def Let_def)
  next
    case other
    then have "?p = system_service_ssh_platform m"
      by (auto simp add: or_else_def)
    then show ?thesis
      using other by (simp add: checkViaSSH_def Let_def outcome_message_def)
  qed
qed

lemma check_message_le:
  "length (outcome_message (check U ex p m h))
     \<le> 218 + length (system_service_name m) + length p +
         length (system_service_ssh_platform m)"
proof -
  let ?c = "or_else (system_service_check_method m) (js ''local'')"
  consider (none) "system_service_name m = []"
    | (ssh) "system_service_name m \<noteq> []" "?c = js ''ssh''"
    | (win) "system_service_name m \<noteq> []" "?c \<noteq> js ''ssh''" "p = js ''win32''"
    | (lin) "system_service_name m \<noteq> []" "?c \<noteq> js ''ssh''" "p \<noteq> js ''win32''"
        "p = js ''linux''"
    | (other) "system_service_name m \<noteq> []" "?c \<noteq> js ''ssh''" "p \<noteq> js ''win32''"
        "p \<noteq> js ''linux''"
    by blast
  then show ?thesis
  proof cases
    case none
    then show ?thesis by (simp add: check_def outcome_message_def)
  next
    case ssh
    then show ?thesis
      using checkViaSSH_message_le [of U ex m h] by (simp add: check_def Let_def)
  next
    case win
    then show ?thesis
      using checkWindows_message_le [of ex "system_service_name m" h]
      by (simp add: check_def Let_def)
  next
    case lin
    then show ?thesis
      using checkLinux_message_le [of ex "system_service_name m" h]
      by (simp add: check_def Let_def)
  next
    case other
    then show ?thesis by (simp add: check_def Let_def outcome_message_def)
  qed
qed

text \<open>
  C9 as stated: whatever the subprocess prints, the message has at most 203 characters.
  The 203 characters bound the diagnostic, and the message is the sentence around it: a
  local Windows check whose status query prints 200 characters reports 220.
\<close>

theorem C9_counterexample:
  "outcome (checkWindows (always \<lparr>error = None, stdout = replicate 200 0x78, stderr = []\<rparr>)
              (js ''nginx'') pending)
     = Inl (Error (service_is (js ''nginx'') (replicate 200 0x78))) \<and>
   length (outcome_message
             (checkWindows (always \<lparr>error = None, stdout = replicate 200 0x78, stderr = []\<rparr>)
                (js ''nginx'') pending)) = 220 \<and>
   \<not> length (outcome_message
             (checkWindows (always \<lparr>error = None, stdout = replicate 200 0x78, stderr = []\<rparr>)
                (js ''nginx'') pending)) \<le> 203"
proof -
  have x: "\<not> is_space 0x78" by (simp add: is_space_def)
  have t: "trimOutput (replicate 200 0x78) = replicate 200 (0x78 :: jschar)"
    using x by (simp add: trimOutput_eq trim_replicate)
  have "length (replicate 200 (0x78 :: jschar)) \<noteq> length (js ''Running'')" by simp
  then have r: "replicate 200 (0x78 :: jschar) \<noteq> js ''Running''" by metis
  have 1: "checkWindows (always \<lparr>error = None, stdout = replicate 200 0x78, stderr = []\<rparr>)
              (js ''nginx'') pending
     = \<lparr>outcome = Inl (Error (service_is (js ''nginx'') (replicate 200 0x78))),
        beat = pending,
        spawned = [\<lparr>program = js ''powershell'',
                    args = [js ''-NoProfile'', js ''-NonInteractive'', js ''-Command'',
                            get_service_command (js ''nginx'')],
                    timeout = 5000\<rparr>]\<rparr>"
    using t r by (simp add: checkWindows_valid [OF nginx_is_name(2)] always_def Let_def)
  show ?thesis
    by (simp add: 1 outcome_message_def length_service_is)
qed

text \<open>
  C9, amended. The message of every run is bounded whatever the subprocess prints: by
  218 characters and the length of the service name for each of the four strategies (the
  sentence \<open>Service 'name' is diagnostic.\<close> around a diagnostic of at most 203
  characters), and for the dispatcher by that and the lengths of the two platform names,
  which its unsupported-platform messages quote.
\<close>

theorem C9_message_length_bounded:
  "length (outcome_message (checkLinux ex n h)) \<le> 218 + length n \<and>
   length (outcome_message (checkLinuxViaSSH U ex n sshUrl h)) \<le> 218 + length n \<and>
   length (outcome_message (checkWindows ex n h)) \<le> 218 + length n \<and>
   length (outcome_message (checkWindowsViaSSH U ex n sshUrl h)) \<le> 218 + length n \<and>
   length (outcome_message (checkViaSSH U ex m h))
     \<le> 218 + length (system_service_name m) + length (system_service_ssh_platform m) \<and>
   length (outcome_message (check U ex p m h))
     \<le> 218 + length (system_service_name m) + length p +
         length (system_service_ssh_platform m)"
  using checkLinux_message_le [of ex n h] checkLinuxViaSSH_message_le [of U ex n sshUrl h]
    checkWindows_message_le [of ex n h] checkWindowsViaSSH_message_le [of U ex n sshUrl h]
    checkViaSSH_message_le [of U ex m h] check_message_le [of U ex p m h]
  by blast

theorem C9_witness:
  "length (outcome_message
             (checkWindows (always \<lparr>error = None, stdout = replicate 5000 0x78, stderr = []\<rparr>)
                (js ''nginx'') pending)) \<le> 223 \<and>
   length (outcome_message
             (checkLinuxViaSSH URL_examples
                (always \<lparr>error = Some (js ''Command failed''), stdout = [],
                         stderr = replicate 5000 0x78\<rparr>)
                (js ''nginx'') (js ''ssh://host'') pending)) \<le> 223"
  using C9_message_length_bounded
          [where ex = "always \<lparr>error = None, stdout = replicate 5000 0x78, stderr = []\<rparr>"
             and n = "js ''nginx''" and h = pending and U = URL_examples
             and sshUrl = "js ''ssh://host''" and p = "js ''linux''"
             and m = "\<lparr>system_service_name = js ''nginx'', system_service_check_method = [],
                       system_service_ssh_url = [], system_service_ssh_platform = []\<rparr>"]
        C9_message_length_bounded
          [where ex = "always \<lparr>error = Some (js ''Command failed''), stdout = [],
                                 stderr = replicate 5000 0x78\<rparr>"
             and n = "js ''nginx''" and h = pending and U = URL_examples
             and sshUrl = "js ''ssh://host''" and p = "js ''linux''"
             and m = "\<lparr>system_service_name = js ''nginx'', system_service_check_method = [],
                       system_service_ssh_url = [], system_service_ssh_platform = []\<rparr>"]
  by simp

subsection \<open>Service-name validation\<close>

text \<open>
  C1. A service name that does not match the platform's allow-list makes each of the
  four strategies fail with the invalid-service-name error of that platform, leaves the
  heartbeat as it was and runs no subprocess: the list of invocations is empty.
\<close>

theorem C1_invalid_name_spawns_nothing:
  "(\<not> linux_name_re n \<longrightarrow>
      checkLinux ex n h = \<lparr>outcome = Inl (Error linux_invalid_name), beat = h, spawned = []\<rparr> \<and>
      checkLinuxViaSSH U ex n target h =
        \<lparr>outcome = Inl (Error linux_invalid_name), beat = h, spawned = []\<rparr>) \<and>
   (\<not> windows_name_re n \<longrightarrow>
      checkWindows ex n h = \<lparr>outcome = Inl (Error windows_invalid_name), beat = h, spawned = []\<rparr> \<and>
      checkWindowsViaSSH U ex n target h =
        \<lparr>outcome = Inl (Error windows_invalid_name), beat = h, spawned = []\<rparr>)"
  by (simp add: checkLinux_def checkLinuxViaSSH_def checkWindows_def checkWindowsViaSSH_def)

lemma space_name_invalid:
  "\<not> linux_name_re (js ''my service'')" "\<not> windows_name_re (js ''my service'')"
  by (simp_all add: linux_name_re_def windows_name_re_def js_def is_alnum_def)

theorem C1_witness:
  "\<not> linux_name_re (js ''my service'') \<and> \<not> windows_name_re (js ''my service'') \<and>
   checkLinux (always \<lparr>error = None, stdout = js ''active'', stderr = []\<rparr>)
       (js ''my service'') pending
     = \<lparr>outcome = Inl (Error linux_invalid_name), beat = pending, spawned = []\<rparr> \<and>
   checkLinuxViaSSH URL_examples (always \<lparr>error = None, stdout = js ''active'', stderr = []\<rparr>)
       (js ''my service'') (js ''ssh://host'') pending
     = \<lparr>outcome = Inl (Error linux_invalid_name), beat = pending, spawned = []\<rparr> \<and>
   checkWindows (always \<lparr>error = None, stdout = js ''active'', stderr = []\<rparr>)
       (js ''my service'') pending
     = \<lparr>outcome = Inl (Error windows_invalid_name), beat = pending, spawned = []\<rparr> \<and>
   checkWindowsViaSSH URL_examples (always \<lparr>error = None, stdout = js ''active'', stderr = []\<rparr>)
       (js ''my service'') (js ''ssh://host'') pending
     = \<lparr>outcome = Inl (Error windows_invalid_name), beat = pending, spawned = []\<rparr>"
  using C1_invalid_name_spawns_nothing
          [where n = "js ''my service''" and h = pending and U = URL_examples
             and target = "js ''ssh://host''"
             and ex = "always \<lparr>error = None, stdout = js ''active'', stderr = []\<rparr>"]
        space_name_invalid
  by simp

subsection \<open>The heartbeat\<close>

text \<open>
  C10. On every failing path of the four strategies and of the dispatcher the caller's
  heartbeat comes back unchanged; it is written only on the success path, which sets
  the status to \<open>UP\<close> and the message to the running message.
\<close>

theorem C10_heartbeat_written_on_success_only:
  "beat (checkLinux ex n h) =
     (case outcome (checkLinux ex n h) of
        Inl e \<Rightarrow> h | Inr u \<Rightarrow> h\<lparr>status := UP, msg := service_is n (js ''running'')\<rparr>) \<and>
   beat (checkLinuxViaSSH U ex n t h) =
     (case outcome (checkLinuxViaSSH U ex n t h) of
        Inl e \<Rightarrow> h | Inr u \<Rightarrow> h\<lparr>status := UP, msg := service_is n (js ''running'')\<rparr>) \<and>
   beat (checkWindows ex n h) =
     (case outcome (checkWindows ex n h) of
        Inl e \<Rightarrow> h | Inr u \<Rightarrow> h\<lparr>status := UP, msg := service_is n (js ''running'')\<rparr>) \<and>
   beat (checkWindowsViaSSH U ex n t h) =
     (case outcome (checkWindowsViaSSH U ex n t h) of
        Inl e \<Rightarrow> h | Inr u \<Rightarrow> h\<lparr>status := UP, msg := service_is n (js ''running'')\<rparr>) \<and>
   beat (checkViaSSH U ex m h) =
     (case outcome (checkViaSSH U ex m h) of
        Inl e \<Rightarrow> h
      | Inr u \<Rightarrow> h\<lparr>status := UP, msg := service_is (system_service_name m) (js ''running'')\<rparr>) \<and>
   beat (check U ex p m h) =
     (case outcome (check U ex p m h) of
        Inl e \<Rightarrow> h
      | Inr u \<Rightarrow> h\<lparr>status := UP, msg := service_is (system_service_name m) (js ''running'')\<rparr>)"
proof -
  have 1: "beat (checkLinux ex n h) =
     (case outcome (checkLinux ex n h) of
        Inl e \<Rightarrow> h | Inr u \<Rightarrow> h\<lparr>status := UP, msg := service_is n (js ''running'')\<rparr>)" for ex n and h :: "'a heartbeat_scheme"
    by (simp add: checkLinux_def Let_def)
  have 2: "beat (checkLinuxViaSSH U ex n t h) =
     (case outcome (checkLinuxViaSSH U ex n t h) of
        Inl e \<Rightarrow> h | Inr u \<Rightarrow> h\<lparr>status := UP, msg := service_is n (js ''running'')\<rparr>)" for U ex n t and h :: "'a heartbeat_scheme"
    by (simp add: checkLinuxViaSSH_def Let_def split: prod.splits sum.splits)
  have 3: "beat (checkWindows ex n h) =
     (case outcome (checkWindows ex n h) of
        Inl e \<Rightarrow> h | Inr u \<Rightarrow> h\<lparr>status := UP, msg := service_is n (js ''running'')\<rparr>)" for ex n and h :: "'a heartbeat_scheme"
    by (simp add: checkWindows_def Let_def)
  have 4: "beat (checkWindowsViaSSH U ex n t h) =
     (case outcome (checkWindowsViaSSH U ex n t h) of
        Inl e \<Rightarrow> h | Inr u \<Rightarrow> h\<lparr>status := UP, msg := service_is n (js ''running'')\<rparr>)" for U ex n t and h :: "'a heartbeat_scheme"
    by (simp add: checkWindowsViaSSH_def Let_def split: prod.splits sum.splits)
  have 5: "beat (checkViaSSH U ex m h) =
     (case outcome (checkViaSSH U ex m h) of
        Inl e \<Rightarrow> h
      | Inr u \<Rightarrow> h\<lparr>status := UP, msg := service_is (system_service_name m) (js ''running'')\<rparr>)" for U ex m and h :: "'a heartbeat_scheme"
    using 2 4 by (simp add: checkViaSSH_def Let_def)
  have 6: "beat (check U ex p m h) =
     (case outcome (check U ex p m h) of
        Inl e \<Rightarrow> h
      | Inr u \<Rightarrow> h\<lparr>status := UP, msg := service_is (system_service_name m) (js ''running'')\<rparr>)"
    using 1 3 5 by (simp add: check_def Let_def)
  from 1 2 3 4 5 6 show ?thesis by blast
qed

theorem C10_witness:
  "outcome (checkWindows (always \<lparr>error = None, stdout = js ''Stopped'', stderr = []\<rparr>)
              (js ''nginx'') pending)
     = Inl (Error (service_is (js ''nginx'') (js ''Stopped''))) \<and>
   beat (checkWindows (always \<lparr>error = None, stdout = js ''Stopped'', stderr = []\<rparr>)
              (js ''nginx'') pending) = pending \<and>
   outcome (check URL_examples (always \<lparr>error = None, stdout = js ''Stopped'', stderr = []\<rparr>)
              (js ''linux'')
              \<lparr>system_service_name = js ''nginx'', system_service_check_method = [],
               system_service_ssh_url = [], system_service_ssh_platform = []\<rparr> pending) = Inr () \<and>
   beat (check URL_examples (always \<lparr>error = None, stdout = js ''Stopped'', stderr = []\<rparr>)
              (js ''linux'')
              \<lparr>system_service_name = js ''nginx'', system_service_check_method = [],
               system_service_ssh_url = [], system_service_ssh_platform = []\<rparr> pending)
     = \<lparr>status = UP, msg = service_is (js ''nginx'') (js ''running'')\<rparr>"
proof -
  let ?ex = "always \<lparr>error = None, stdout = js ''Stopped'', stderr = []\<rparr>"
  let ?m = "\<lparr>system_service_name = js ''nginx'', system_service_check_method = [],
               system_service_ssh_url = [], system_service_ssh_platform = []\<rparr>"
  have w: "windows_name_re (js ''nginx'')" and l: "linux_name_re (js ''nginx'')"
    by (simp_all add: windows_name_re_def linux_name_re_def js_def is_alnum_def)
  have t: "trim (js ''Stopped'') = js ''Stopped''"
    by (rule trim_fixed) (simp_all add: js_def is_space_def)
  have 1: "outcome (checkWindows ?ex (js ''nginx'') pending)
      = Inl (Error (service_is (js ''nginx'') (js ''Stopped'')))"
    using w t by (simp add: checkWindows_def always_def or_else_def Let_def) (simp add: js_def)
  have 2: "outcome (check URL_examples ?ex (js ''linux'') ?m pending) = Inr ()"
    using l by (simp add: check_def checkLinux_def always_def or_else_def Let_def) (simp add: js_def)
  show ?thesis
    using C10_heartbeat_written_on_success_only
            [where ex = ?ex and n = "js ''nginx''" and h = pending and U = URL_examples
               and m = ?m and p = "js ''linux''"] 1 2
    by (simp add: pending_def)
qed

end
